theory Spec2Isabelle
  imports Main "HOL-Library.Sublist"
begin

section \<open>JavaScript strings\<close>

text \<open>
  A JavaScript string is a sequence of UTF-16 code units; \<open>length\<close> counts code units,
  as \<^verbatim>\<open>String.prototype.length\<close> does. The Korean keywords of the slot parser are
  all in the Basic Multilingual Plane, one code unit per character. ASCII literals of the
  source are written with \<open>str\<close>.
\<close>

type_synonym jsstring = "nat list"

definition str :: "string \<Rightarrow> jsstring" where
  "str s = map of_char s"

text \<open>
  \<^verbatim>\<open>String.prototype.trim\<close> strips WhiteSpace and LineTerminator code units from both
  ends: TAB, LF, VT, FF, CR, SP, NBSP, U+1680, U+2000..U+200A, U+2028, U+2029, U+202F,
  U+205F, U+3000 and U+FEFF.
\<close>

definition isWhiteSpace :: "nat \<Rightarrow> bool" where
  "isWhiteSpace c =
     (c \<in> {9, 10, 11, 12, 13, 32, 160, 5760, 8232, 8233, 8239, 8287, 12288, 65279}
      \<or> (8192 \<le> c \<and> c \<le> 8202))"

definition js_trim :: "jsstring \<Rightarrow> jsstring" where
  "js_trim s = rev (dropWhile isWhiteSpace (rev (dropWhile isWhiteSpace s)))"

text \<open>
  The first occurrence of \<open>pat\<close> in \<open>s\<close>, as the text before it and the text after it
  (\<^verbatim>\<open>indexOf\<close>). The empty pattern occurs at offset 0.
\<close>

fun find_first :: "jsstring \<Rightarrow> jsstring \<Rightarrow> (jsstring \<times> jsstring) option" where
  "find_first pat [] = (if pat = [] then Some ([], []) else None)"
| "find_first pat (c # cs) =
     (if prefix pat (c # cs) then Some ([], drop (length pat) (c # cs))
      else (case find_first pat cs of
              None \<Rightarrow> None
            | Some (b, a) \<Rightarrow> Some (c # b, a)))"

text \<open>
  The replacement text of \<^verbatim>\<open>String.prototype.replace\<close> when the replace value is a
  string (GetSubstitution), for a match \<open>m\<close> with the text \<open>b\<close> before it and \<open>a\<close> after
  it, and no capture groups: \<^verbatim>\<open>$$\<close> is a dollar sign, \<^verbatim>\<open>$&\<close> the match,
  \<^verbatim>\<open>$`\<close> the text before, \<^verbatim>\<open>$'\<close> the text after; every other character, and a
  dollar sign before anything else, stands for itself.
\<close>

fun get_substitution :: "jsstring \<Rightarrow> jsstring \<Rightarrow> jsstring \<Rightarrow> jsstring \<Rightarrow> jsstring" where
  "get_substitution m b a [] = []"
| "get_substitution m b a [c] = [c]"
| "get_substitution m b a (c # d # r) =
     (if c = 36 \<and> d = 36 then 36 # get_substitution m b a r
      else if c = 36 \<and> d = 38 then m @ get_substitution m b a r
      else if c = 36 \<and> d = 96 then b @ get_substitution m b a r
      else if c = 36 \<and> d = 39 then a @ get_substitution m b a r
      else c # get_substitution m b a (d # r))"

text \<open>\<^verbatim>\<open>s.replace(pat, rep)\<close> with a string pattern: the first occurrence only.\<close>

definition js_replace :: "jsstring \<Rightarrow> jsstring \<Rightarrow> jsstring \<Rightarrow> jsstring" where
  "js_replace pat rep s =
     (case find_first pat s of
        None \<Rightarrow> s
      | Some (b, a) \<Rightarrow> b @ get_substitution pat b a rep @ a)"

text \<open>
  \<^verbatim>\<open>s.replace(new RegExp(escaped, "g"), rep)\<close> where \<open>escaped\<close> is the key with every
  regular-expression metacharacter backslash-escaped, so that the pattern matches the
  key's code units literally: every non-overlapping occurrence, left to right. \<open>done\<close>
  is the part of the subject already passed, needed for \<^verbatim>\<open>$`\<close>. The empty key matches
  the empty string before every code unit and at the end.
\<close>

fun replace_all_empty :: "jsstring \<Rightarrow> jsstring \<Rightarrow> jsstring \<Rightarrow> jsstring" where
  "replace_all_empty rep done [] = get_substitution [] done [] rep"
| "replace_all_empty rep done (c # cs) =
     get_substitution [] done (c # cs) rep @ c # replace_all_empty rep (done @ [c]) cs"

function replace_all_from :: "jsstring \<Rightarrow> jsstring \<Rightarrow> jsstring \<Rightarrow> jsstring \<Rightarrow> jsstring" where
  "replace_all_from pat rep done [] = []"
| "replace_all_from pat rep done (c # cs) =
     (if pat \<noteq> [] \<and> prefix pat (c # cs)
        then get_substitution pat done (drop (length pat) (c # cs)) rep
             @ replace_all_from pat rep (done @ pat) (drop (length pat) (c # cs))
      else c # replace_all_from pat rep (done @ [c]) cs)"
  by pat_completeness auto
termination
  by (relation "measure (\<lambda>(pat, rep, done, s). length s)") (auto simp: neq_Nil_conv)

definition js_replace_all :: "jsstring \<Rightarrow> jsstring \<Rightarrow> jsstring \<Rightarrow> jsstring" where
  "js_replace_all pat rep s =
     (if pat = [] then replace_all_empty rep [] s else replace_all_from pat rep [] s)"

text \<open>
  \<^verbatim>\<open>String(n)\<close> and \<^verbatim>\<open>`${n}`\<close> for a number \<open>n\<close>. A safe integer (at most \<open>2^53 - 1\<close> in
  magnitude) prints as its decimal digits, with a minus sign when negative. Every other
  number (a fraction, a number beyond the safe integers, NaN, an infinity) is kept as
  the text the platform prints for it.
\<close>

fun show_nat :: "nat \<Rightarrow> jsstring" where
  "show_nat n = (if n < 10 then [48 + n] else show_nat (n div 10) @ [48 + n mod 10])"

declare show_nat.simps [simp del]

typedef safe_int = "{i :: int. - 9007199254740991 \<le> i \<and> i \<le> 9007199254740991}"
  by (rule exI [of _ 0]) simp

definition show_int :: "safe_int \<Rightarrow> jsstring" where
  "show_int n =
     (if Rep_safe_int n < 0 then 45 # show_nat (nat (- Rep_safe_int n))
      else show_nat (nat (Rep_safe_int n)))"

datatype js_number = Whole safe_int | Printed jsstring

fun number_text :: "js_number \<Rightarrow> jsstring" where
  "number_text (Whole n) = show_int n"
| "number_text (Printed s) = s"

section \<open>Objects used as term mappings\<close>

text \<open>
  A lexicon is a JavaScript object with string values. It is kept as the list of its
  properties in insertion order; the list denotes the object whose keys are the distinct
  first components and whose value at a key is the first binding of that key.
  \<^verbatim>\<open>Object.keys\<close> lists the keys that are array indices (canonical decimal numerals
  below \<open>2^32 - 1\<close>) first, in ascending numeric order, then the other keys in insertion
  order.
\<close>

type_synonym lexicon = "(jsstring \<times> jsstring) list"

definition get_prop :: "lexicon \<Rightarrow> jsstring \<Rightarrow> jsstring option" where
  "get_prop obj k = map_of obj k"

fun read_nat :: "nat \<Rightarrow> jsstring \<Rightarrow> nat" where
  "read_nat acc [] = acc"
| "read_nat acc (c # cs) = read_nat (10 * acc + (c - 48)) cs"

definition array_index :: "jsstring \<Rightarrow> nat option" where
  "array_index k =
     (if k \<noteq> [] \<and> list_all (\<lambda>c. 48 \<le> c \<and> c \<le> 57) k \<and> (k = [48] \<or> hd k \<noteq> 48)
         \<and> read_nat 0 k < 4294967295
      then Some (read_nat 0 k) else None)"

definition object_keys :: "lexicon \<Rightarrow> jsstring list" where
  "object_keys obj =
     (let ks = rev (remdups (rev (map fst obj))) in
      sort_key (\<lambda>k. the (array_index k)) (filter (\<lambda>k. array_index k \<noteq> None) ks)
      @ filter (\<lambda>k. array_index k = None) ks)"

text \<open>
  \<^verbatim>\<open>target[k] = v\<close> on an object made by an object literal. An existing property keeps
  its place, a new one is added last. The key \<^verbatim>\<open>__proto__\<close>, when the object has no
  property of its own under it, goes to the setter of \<^verbatim>\<open>Object.prototype\<close>, which ignores
  a string: nothing is added.
\<close>

definition proto_key :: jsstring where
  "proto_key = str ''__proto__''"

fun set_prop :: "jsstring \<Rightarrow> jsstring \<Rightarrow> lexicon \<Rightarrow> lexicon" where
  "set_prop k v [] = [(k, v)]"
| "set_prop k v ((k', v') # obj) =
     (if k = k' then (k, v) # obj else (k', v') # set_prop k v obj)"

definition put_prop :: "jsstring \<Rightarrow> jsstring \<Rightarrow> lexicon \<Rightarrow> lexicon" where
  "put_prop k v obj =
     (if k = proto_key \<and> get_prop obj k = None then obj else set_prop k v obj)"

text \<open>
  \<^verbatim>\<open>Object.assign(target, source)\<close> assigns the own properties of \<open>source\<close> to \<open>target\<close>
  in the order of its keys.
\<close>

definition object_assign :: "lexicon \<Rightarrow> lexicon \<Rightarrow> lexicon" where
  "object_assign target source =
     fold (\<lambda>k t. case get_prop source k of None \<Rightarrow> t | Some v \<Rightarrow> put_prop k v t)
       (object_keys source) target"

text \<open>An object without a property \<^verbatim>\<open>__proto__\<close> of its own.\<close>

definition without_proto :: "lexicon \<Rightarrow> lexicon" where
  "without_proto obj = filter (\<lambda>(k, v). k \<noteq> proto_key) obj"

section \<open>MiniTranslator\<close>

text \<open>
  \<^verbatim>\<open>allKeys.sort((a, b) => b.length - a.length)\<close>: a stable sort by descending length
  (\<^verbatim>\<open>Array.prototype.sort\<close> is stable).
\<close>

fun insert_by_length :: "jsstring \<Rightarrow> jsstring list \<Rightarrow> jsstring list" where
  "insert_by_length k [] = [k]"
| "insert_by_length k (k' # ks) =
     (if length k' \<le> length k then k # k' # ks else k' # insert_by_length k ks)"

definition sort_by_length_desc :: "jsstring list \<Rightarrow> jsstring list" where
  "sort_by_length_desc ks = foldr insert_by_length ks []"

text \<open>
  One pass of the loop body of \<^verbatim>\<open>translate\<close>: a key whose value is falsy (here: absent
  or the empty string) is skipped.
\<close>

definition translate_key :: "lexicon \<Rightarrow> jsstring \<Rightarrow> jsstring \<Rightarrow> jsstring" where
  "translate_key mergedLexicon key output =
     (case get_prop mergedLexicon key of
        None \<Rightarrow> output
      | Some v \<Rightarrow> if v = [] then output else js_replace_all key v output)"

definition translate :: "jsstring \<Rightarrow> lexicon \<Rightarrow> jsstring" where
  "translate koreanText mergedLexicon =
     fold (translate_key mergedLexicon) (sort_by_length_desc (object_keys mergedLexicon))
       koreanText"

section \<open>SlotParser\<close>

record 'n slots =
  subject :: jsstring
  environment :: jsstring
  lighting :: jsstring
  materials :: jsstring
  mood :: jsstring
  composition :: jsstring
  details :: jsstring
  duration :: 'n

text \<open>\<^verbatim>\<open>s.split(/[.,\n]/)\<close>: the pieces between the delimiters, empty ones included.\<close>

fun js_split :: "(nat \<Rightarrow> bool) \<Rightarrow> jsstring \<Rightarrow> jsstring list" where
  "js_split P [] = [[]]"
| "js_split P (c # cs) =
     (if P c then [] # js_split P cs
      else (case js_split P cs of [] \<Rightarrow> [[c]] | w # ws \<Rightarrow> (c # w) # ws))"

definition is_delimiter :: "nat \<Rightarrow> bool" where
  "is_delimiter c = (c = 46 \<or> c = 44 \<or> c = 10)"

fun js_join :: "jsstring \<Rightarrow> jsstring list \<Rightarrow> jsstring" where
  "js_join sep [] = []"
| "js_join sep [x] = x"
| "js_join sep (x # y # ys) = x @ sep @ js_join sep (y # ys)"

text \<open>\<^verbatim>\<open>x || d\<close> for \<open>x\<close> a string or undefined: the empty string is falsy.\<close>

definition or_default :: "jsstring option \<Rightarrow> jsstring \<Rightarrow> jsstring" where
  "or_default x d = (case x of None \<Rightarrow> d | Some s \<Rightarrow> if s = [] then d else s)"

text \<open>\<^verbatim>\<open>xs[i]\<close>: undefined out of range.\<close>

definition at_index :: "'a list \<Rightarrow> nat \<Rightarrow> 'a option" where
  "at_index xs i = (if i < length xs then Some (xs ! i) else None)"

text \<open>
  \<^verbatim>\<open>/k1|k2|.../.test(p)\<close> for keywords without metacharacters: some keyword occurs in
  \<open>p\<close>. The keywords are given by their code units.
\<close>

definition test_any :: "jsstring list \<Rightarrow> jsstring \<Rightarrow> bool" where
  "test_any keywords p = list_ex (\<lambda>k. find_first k p \<noteq> None) keywords"

definition lighting_keywords :: "jsstring list" where
  "lighting_keywords = [[51312, 47749], [48731], [44305], [54663, 49332]]"

definition materials_keywords :: "jsstring list" where
  "materials_keywords =
     [[50976, 47532], [47700, 53448], [44552, 49549], [54540, 46972, 49828, 54001],
      [49892, 53356], [44144, 50872]]"

definition mood_keywords :: "jsstring list" where
  "mood_keywords =
     [[48516, 50948, 44592], [47924, 46300], [52264, 48516], [44256, 44553],
      [49345, 53132], [46384, 46907]]"

definition composition_keywords :: "jsstring list" where
  "composition_keywords =
     [[44396, 46020], [49345, 45800], [54616, 45800], [51, 48516, 54624],
      [53364, 47196, 51592, 50629], [50896, 44540]]"

definition parts_of :: "jsstring \<Rightarrow> jsstring list" where
  "parts_of text = filter (\<lambda>s. s \<noteq> []) (map js_trim (js_split is_delimiter (js_trim text)))"

definition parse :: "jsstring \<Rightarrow> nat slots" where
  "parse text =
     (let parts = parts_of text in
      \<lparr> subject = or_default (at_index parts 0) (str ''product beauty shot''),
        environment = or_default (at_index parts 1) (str ''studio setting with clean background''),
        lighting = or_default (find (test_any lighting_keywords) parts) (str ''soft diffuse lighting''),
        materials = or_default (find (test_any materials_keywords) parts) (str ''glass, metal, plastic''),
        mood = or_default (find (test_any mood_keywords) parts) (str ''elegant and fresh''),
        composition = or_default (find (test_any composition_keywords) parts) (str ''centered hero close-up''),
        details = or_default (Some (js_join (str '', '') (drop 2 parts)))
                    (str ''crisp label, accurate color, subtle reflections''),
        duration = 4 \<rparr>)"

section \<open>Builders\<close>

record param_keys =
  aspectKey :: "jsstring option"
  stylizeKey :: "jsstring option"
  seedKey :: "jsstring option"
  negativeKey :: "jsstring option"

record model_record =
  model_id :: jsstring
  model_name :: jsstring
  latest :: jsstring
  engines :: "jsstring list"
  model_params :: "param_keys option"
  template :: "jsstring option"
  lexicon :: "lexicon option"
  guideline :: "jsstring list"

record global_guidelines =
  gg_version :: jsstring
  gg_updatedAt :: jsstring
  gg_lexicon :: lexicon
  gg_models :: "model_record list option"

text \<open>The options of one build. A field that is absent is \<open>None\<close>.\<close>

record ui_options =
  aspect :: "jsstring option"
  stylize :: "js_number option"
  seed :: "jsstring option"
  negative :: "jsstring option"

record build_result =
  full :: jsstring
  params :: jsstring

text \<open>\<^verbatim>\<open>modelRecord.params || {}\<close>: without the object every key is undefined.\<close>

definition params_of :: "model_record \<Rightarrow> param_keys" where
  "params_of modelRecord =
     (case model_params modelRecord of
        None \<Rightarrow> \<lparr> aspectKey = None, stylizeKey = None, seedKey = None, negativeKey = None \<rparr>
      | Some p \<Rightarrow> p)"

text \<open>A key inside a template literal: undefined prints as \<^verbatim>\<open>undefined\<close>.\<close>

definition key_text :: "jsstring option \<Rightarrow> jsstring" where
  "key_text k = (case k of None \<Rightarrow> str ''undefined'' | Some t \<Rightarrow> t)"

definition mergedLexicon :: "global_guidelines \<Rightarrow> model_record \<Rightarrow> lexicon" where
  "mergedLexicon g modelRecord =
     object_assign (object_assign [] (gg_lexicon g))
       (case lexicon modelRecord of None \<Rightarrow> [] | Some l \<Rightarrow> l)"

text \<open>
  The loop over \<^verbatim>\<open>Object.entries(slots)\<close>: every slot, the number \<open>duration\<close> included
  (through \<^verbatim>\<open>String(v)\<close>), is translated.
\<close>

definition translate_slots :: "lexicon \<Rightarrow> nat slots \<Rightarrow> jsstring slots" where
  "translate_slots merged s =
     \<lparr> subject = translate (subject s) merged,
       environment = translate (environment s) merged,
       lighting = translate (lighting s) merged,
       materials = translate (materials s) merged,
       mood = translate (mood s) merged,
       composition = translate (composition s) merged,
       details = translate (details s) merged,
       duration = translate (show_nat (duration s)) merged \<rparr>"

definition aspectToken :: "param_keys \<Rightarrow> ui_options \<Rightarrow> jsstring" where
  "aspectToken ps uiOptions =
     (case aspect uiOptions of
        None \<Rightarrow> []
      | Some a \<Rightarrow> if a = [] then [] else key_text (aspectKey ps) @ [32] @ a)"

definition stylizeToken :: "param_keys \<Rightarrow> ui_options \<Rightarrow> jsstring" where
  "stylizeToken ps uiOptions =
     key_text (stylizeKey ps) @ [32]
       @ number_text (case stylize uiOptions of
                        None \<Rightarrow> Whole (Abs_safe_int 50)
                      | Some n \<Rightarrow> n)"

definition seedToken :: "param_keys \<Rightarrow> ui_options \<Rightarrow> jsstring" where
  "seedToken ps uiOptions =
     (case seed uiOptions of
        None \<Rightarrow> []
      | Some a \<Rightarrow> if a = [] then [] else key_text (seedKey ps) @ [32] @ a)"

definition negativeToken :: "param_keys \<Rightarrow> lexicon \<Rightarrow> ui_options \<Rightarrow> jsstring" where
  "negativeToken ps merged uiOptions =
     (case negative uiOptions of
        None \<Rightarrow> []
      | Some a \<Rightarrow> if a = [] then [] else key_text (negativeKey ps) @ [32] @ translate a merged)"

text \<open>
  The chain of \<^verbatim>\<open>.replace("{name}", value)\<close> calls, in the order of the source, as the
  list of its (placeholder, value) pairs.
\<close>

definition substitutions ::
  "jsstring slots \<Rightarrow> jsstring \<Rightarrow> jsstring \<Rightarrow> jsstring \<Rightarrow> jsstring \<Rightarrow> jsstring
     \<Rightarrow> (jsstring \<times> jsstring) list" where
  "substitutions ts engine aspectT stylizeT seedT negativeT =
     [(str ''{subject}'', subject ts),
      (str ''{environment}'', environment ts),
      (str ''{lighting}'', lighting ts),
      (str ''{materials}'', materials ts),
      (str ''{mood}'', mood ts),
      (str ''{composition}'', composition ts),
      (str ''{details}'', details ts),
      (str ''{duration}'', duration ts),
      (str ''{engine}'', engine),
      (str ''{aspect}'', aspectT),
      (str ''{stylize}'', stylizeT),
      (str ''{seed}'', seedT),
      (str ''{negative}'', negativeT)]"

definition fill :: "(jsstring \<times> jsstring) list \<Rightarrow> jsstring \<Rightarrow> jsstring" where
  "fill subs tpl = js_trim (fold (\<lambda>(placeholder, v) s. js_replace placeholder v s) subs tpl)"

text \<open>
  \<^verbatim>\<open>(filled.match(/Parameters:(.*)$/m) || ["", ""])[1].trim()\<close>: the leftmost occurrence
  of the marker; the group takes the code units after it up to the next line terminator
  (LF, CR, U+2028, U+2029) or the end of the text, where \<^verbatim>\<open>$\<close> matches under the
  \<^verbatim>\<open>m\<close> flag.
\<close>

definition isLineTerminator :: "nat \<Rightarrow> bool" where
  "isLineTerminator c = (c = 10 \<or> c = 13 \<or> c = 8232 \<or> c = 8233)"

definition paramsLine :: "jsstring \<Rightarrow> jsstring" where
  "paramsLine filled =
     (case find_first (str ''Parameters:'') filled of
        None \<Rightarrow> []
      | Some (b, a) \<Rightarrow> js_trim (takeWhile (\<lambda>c. \<not> isLineTerminator c) a))"

definition buildPrompt ::
  "global_guidelines \<Rightarrow> model_record \<Rightarrow> jsstring \<Rightarrow> jsstring \<Rightarrow> ui_options \<Rightarrow> build_result" where
  "buildPrompt g modelRecord input engine uiOptions =
     (let ps = params_of modelRecord;
          tpl = (case template modelRecord of None \<Rightarrow> [] | Some t \<Rightarrow> t);
          merged = mergedLexicon g modelRecord;
          translatedSlots = translate_slots merged (parse input);
          filled = fill (substitutions translatedSlots engine
                           (aspectToken ps uiOptions) (stylizeToken ps uiOptions)
                           (seedToken ps uiOptions) (negativeToken ps merged uiOptions)) tpl
      in \<lparr> full = filled, params = paramsLine filled \<rparr>)"

section \<open>Builder registry and guideline loading\<close>

text \<open>
  The guidelines document as the loader reads it; \<open>source\<close> is stamped by the loader.
  Absent fields are \<open>None\<close>.
\<close>

record guidelines =
  version :: "jsstring option"
  updatedAt :: "jsstring option"
  models :: "model_record list option"
  doc_lexicon :: "lexicon option"
  source :: "jsstring option"

datatype js_error = TypeError | SyntaxError | Error jsstring

text \<open>
  What the page's collaborators do is a parameter of the model: \<open>fetch\<close> answers a URL
  with a response or rejects; a response says whether its status is a success and what
  reading its body as JSON gives; \<open>JSON_stringify\<close> and \<open>JSON_parse\<close> are the platform's
  serialiser and parser. A JSON body is a document object here, so stamping its
  \<open>source\<close> cannot fail; a write to storage is taken to succeed.
\<close>

record response =
  ok :: bool
  json :: "js_error + guidelines"

record env =
  fetch :: "jsstring \<Rightarrow> js_error + response"
  JSON_stringify :: "guidelines \<Rightarrow> jsstring"
  JSON_parse :: "jsstring \<Rightarrow> js_error + guidelines"

text \<open>
  The state the scripts share: the two globals on \<^verbatim>\<open>window\<close> and \<^verbatim>\<open>localStorage\<close>.
  A builder is the closure of \<^verbatim>\<open>buildPrompt\<close> over its model record, so the registry
  keeps the record; the builder reads \<^verbatim>\<open>window.GlobalGuidelines\<close> when it is called.
\<close>

record world =
  GlobalGuidelines :: global_guidelines
  builders :: "jsstring \<rightharpoonup> model_record"
  localStorage :: "jsstring \<rightharpoonup> jsstring"

definition SOURCE_URL :: jsstring where
  "SOURCE_URL = str ''guidelines.sourceUrl''"

definition CACHED_JSON :: jsstring where
  "CACHED_JSON = str ''guidelines.cachedJson''"

definition initial_world :: world where
  "initial_world =
     \<lparr> GlobalGuidelines =
         \<lparr> gg_version = str ''0.0.0'', gg_updatedAt = [], gg_lexicon = [], gg_models = None \<rparr>,
       builders = Map.empty,
       localStorage = Map.empty \<rparr>"

definition installFromGuidelines :: "guidelines \<Rightarrow> (jsstring \<rightharpoonup> model_record)" where
  "installFromGuidelines gl =
     fold (\<lambda>model bs. bs(model_id model \<mapsto> model))
       (case models gl of None \<Rightarrow> [] | Some ms \<Rightarrow> ms) Map.empty"

definition fetchJson :: "env \<Rightarrow> jsstring \<Rightarrow> js_error + guidelines" where
  "fetchJson e url =
     (case fetch e url of
        Inl err \<Rightarrow> Inl err
      | Inr r \<Rightarrow> if \<not> ok r then Inl (Error (str ''Failed to fetch '' @ url)) else json r)"

text \<open>The body of the \<^verbatim>\<open>try\<close> block up to the write to storage.\<close>

definition fetch_configured :: "env \<Rightarrow> jsstring option \<Rightarrow> js_error + guidelines" where
  "fetch_configured e sourceUrl =
     (if sourceUrl \<noteq> None \<and> sourceUrl \<noteq> Some []
      then (case fetchJson e (the sourceUrl) of
              Inl err \<Rightarrow> Inl err
            | Inr d \<Rightarrow> Inr (d\<lparr>source := Some (str ''remote'')\<rparr>))
      else (case fetchJson e (str ''../assets/models.json'') of
              Inl err \<Rightarrow> Inl err
            | Inr d \<Rightarrow> Inr (d\<lparr>source := Some (str ''local'')\<rparr>)))"

text \<open>What follows the \<^verbatim>\<open>try\<close> statement: publish the document and install the builders.\<close>

definition publish :: "guidelines \<Rightarrow> world \<Rightarrow> world" where
  "publish d w =
     w\<lparr> GlobalGuidelines :=
          \<lparr> gg_version = or_default (version d) (str ''0.0.0''),
            gg_updatedAt = or_default (updatedAt d) [],
            gg_lexicon = [],
            gg_models = Some (case models d of None \<Rightarrow> [] | Some ms \<Rightarrow> ms) \<rparr>,
        builders := installFromGuidelines d \<rparr>"

definition loadGuidelines :: "env \<Rightarrow> world \<Rightarrow> (js_error + guidelines) \<times> world" where
  "loadGuidelines e w =
     (case fetch_configured e (localStorage w SOURCE_URL) of
        Inr d \<Rightarrow>
          (Inr d, publish d (w\<lparr>localStorage := (localStorage w)(CACHED_JSON \<mapsto> JSON_stringify e d)\<rparr>))
      | Inl err \<Rightarrow>
          (case localStorage w CACHED_JSON of
             None \<Rightarrow> (Inl err, w)
           | Some cached \<Rightarrow>
               if cached = [] then (Inl err, w)
               else (case JSON_parse e cached of
                       Inl perr \<Rightarrow> (Inl perr, w)
                     | Inr d \<Rightarrow> (Inr (d\<lparr>source := Some (str ''cache'')\<rparr>),
                                publish (d\<lparr>source := Some (str ''cache'')\<rparr>) w))))"

section \<open>Templates as pieces\<close>

text \<open>
  For the statement of what rendering does, a template is read as a sequence of pieces:
  plain text and tokens \<^verbatim>\<open>{name}\<close>. \<open>flat\<close> is the template text of a sequence of pieces. A
  piece is plain when its text has no opening brace, or its name has no brace at all.
\<close>

datatype piece = Text jsstring | Token jsstring

definition brace :: "jsstring \<Rightarrow> jsstring" where
  "brace n = 123 # n @ [125]"

fun flat :: "piece list \<Rightarrow> jsstring" where
  "flat [] = []"
| "flat (Text s # ps) = s @ flat ps"
| "flat (Token n # ps) = brace n @ flat ps"

fun plain_piece :: "piece \<Rightarrow> bool" where
  "plain_piece (Text s) = (123 \<notin> set s)"
| "plain_piece (Token n) = (123 \<notin> set n \<and> 125 \<notin> set n)"

fun token_names :: "piece list \<Rightarrow> jsstring list" where
  "token_names [] = []"
| "token_names (Text s # ps) = token_names ps"
| "token_names (Token n # ps) = n # token_names ps"

text \<open>
  Rendering as the specification words it, literal placeholder substitution: one pass
  over the pieces, in which a token with a value is replaced by that value verbatim and
  every other piece stands for itself.
\<close>

fun spec_render :: "(jsstring \<rightharpoonup> jsstring) \<Rightarrow> piece list \<Rightarrow> jsstring" where
  "spec_render vals [] = []"
| "spec_render vals (Text s # ps) = s @ spec_render vals ps"
| "spec_render vals (Token n # ps) =
     (case vals n of None \<Rightarrow> brace n | Some v \<Rightarrow> v) @ spec_render vals ps"

text \<open>The thirteen named placeholders of the specification with their resolved values.\<close>

definition placeholder_values ::
  "jsstring slots \<Rightarrow> jsstring \<Rightarrow> jsstring \<Rightarrow> jsstring \<Rightarrow> jsstring \<Rightarrow> jsstring
     \<Rightarrow> (jsstring \<times> jsstring) list" where
  "placeholder_values ts engine aspectT stylizeT seedT negativeT =
     [(str ''subject'', subject ts),
      (str ''environment'', environment ts),
      (str ''lighting'', lighting ts),
      (str ''materials'', materials ts),
      (str ''mood'', mood ts),
      (str ''composition'', composition ts),
      (str ''details'', details ts),
      (str ''duration'', duration ts),
      (str ''engine'', engine),
      (str ''aspect'', aspectT),
      (str ''stylize'', stylizeT),
      (str ''seed'', seedT),
      (str ''negative'', negativeT)]"

text \<open>
  What one \<^verbatim>\<open>.replace("{n}", v)\<close> does on the pieces, and what all of them have done to a
  piece in the end.
\<close>

fun subst_first :: "jsstring \<Rightarrow> jsstring \<Rightarrow> piece list \<Rightarrow> piece list" where
  "subst_first n v [] = []"
| "subst_first n v (Text s # ps) = Text s # subst_first n v ps"
| "subst_first n v (Token m # ps) =
     (if m = n then Text v # ps else Token m # subst_first n v ps)"

fun resolve :: "(jsstring \<rightharpoonup> jsstring) \<Rightarrow> piece \<Rightarrow> piece" where
  "resolve vals (Text s) = Text s"
| "resolve vals (Token n) = (case vals n of None \<Rightarrow> Token n | Some v \<Rightarrow> Text v)"

section \<open>Example data\<close>

text \<open>Concrete inputs at which the theorems below are instantiated.\<close>

definition empty_doc :: guidelines where
  "empty_doc = \<lparr> version = None, updatedAt = None, models = None, doc_lexicon = None,
                 source = None \<rparr>"

text \<open>A page that is offline: every fetch rejects; the only text that parses is \<^verbatim>\<open>{}\<close>.\<close>

definition offline_env :: env where
  "offline_env =
     \<lparr> fetch = (\<lambda>url. Inl TypeError),
       JSON_stringify = (\<lambda>d. str ''{}''),
       JSON_parse = (\<lambda>s. if s = str ''{}'' then Inr empty_doc else Inl SyntaxError) \<rparr>"

definition cached_world :: world where
  "cached_world = initial_world\<lparr>localStorage := [CACHED_JSON \<mapsto> str ''{}'']\<rparr>"

definition all_keys :: param_keys where
  "all_keys = \<lparr> aspectKey = Some (str ''--ar''), stylizeKey = Some (str ''--s''),
                seedKey = Some (str ''--seed''), negativeKey = Some (str ''--no'') \<rparr>"

definition token_model :: model_record where
  "token_model =
     \<lparr> model_id = str ''mj'', model_name = str ''Midjourney'', latest = str ''6'',
       engines = [str ''image''], model_params = Some all_keys,
       template = Some (str ''{aspect}|{seed}|{negative}|{stylize}''),
       lexicon = None, guideline = [] \<rparr>"

definition empty_options :: ui_options where
  "empty_options = \<lparr> aspect = Some [], stylize = None, seed = Some [], negative = Some [] \<rparr>"



text \<open>The model, the options and the text of the specification's end-to-end example.\<close>

definition shoe_model :: model_record where
  "shoe_model =
     \<lparr> model_id = str ''mj'', model_name = str ''Midjourney'', latest = str ''6'',
       engines = [str ''image''],
       model_params = Some \<lparr> aspectKey = Some (str ''--ar''), stylizeKey = Some (str ''--s''),
                              seedKey = None, negativeKey = None \<rparr>,
       template = Some (str ''{subject} in {environment}, {lighting}. Parameters: {aspect} {stylize}''),
       lexicon = None, guideline = [] \<rparr>"

definition shoe_options :: ui_options where
  "shoe_options = \<lparr> aspect = Some (str ''16:9''), stylize = Some (Whole (Abs_safe_int 80)), seed = None, negative = None \<rparr>"

definition shoe_text :: jsstring where
  "shoe_text = str ''a red shoe, on a wooden table''"

definition shoe_output :: jsstring where
  "shoe_output =
     str ''a red shoe in on a wooden table, soft diffuse lighting. Parameters: --ar 16:9 --s 80''"

text \<open>A video model whose lexicon has the key \<^verbatim>\<open>4\<close>.\<close>

definition four_model :: model_record where
  "four_model =
     \<lparr> model_id = str ''veo'', model_name = str ''Veo'', latest = str ''3'',
       engines = [str ''video''], model_params = Some all_keys,
       template = Some (str ''{duration}''),
       lexicon = Some [(str ''4'', str ''four'')], guideline = [] \<rparr>"

definition light_lexicon :: lexicon where
  "light_lexicon = [([48731], str ''light'')]"

text \<open>
  A guidelines document with a global lexicon and one model without a lexicon of its own,
  a page whose every fetch answers with that document, and the state after loading it
  on the first visit.
\<close>

definition subject_model :: model_record where
  "subject_model =
     \<lparr> model_id = str ''sd'', model_name = str ''Stable Diffusion'', latest = str ''3'',
       engines = [str ''image''], model_params = Some all_keys,
       template = Some (str ''{subject}''), lexicon = None, guideline = [] \<rparr>"

definition glow_model :: model_record where
  "glow_model = subject_model\<lparr>lexicon := Some [([48731], str ''glow'')]\<rparr>"

text \<open>A model whose lexicon, as parsed from JSON, has a property \<^verbatim>\<open>__proto__\<close>.\<close>

definition proto_lexicon :: lexicon where
  "proto_lexicon = [(proto_key, str ''x''), ([48731], str ''glow'')]"

definition proto_model :: model_record where
  "proto_model = subject_model\<lparr>lexicon := Some proto_lexicon\<rparr>"

definition lexicon_doc :: guidelines where
  "lexicon_doc =
     \<lparr> version = Some (str ''1.0.0''), updatedAt = Some (str ''2025-01-01''),
       models = Some [subject_model], doc_lexicon = Some light_lexicon, source = None \<rparr>"

definition online_env :: env where
  "online_env =
     \<lparr> fetch = (\<lambda>url. Inr \<lparr> ok = True, json = Inr lexicon_doc \<rparr>),
       JSON_stringify = (\<lambda>d. str ''{}''),
       JSON_parse = (\<lambda>s. if s = str ''{}'' then Inr empty_doc else Inl SyntaxError) \<rparr>"

definition loaded_world :: world where
  "loaded_world = snd (loadGuidelines online_env initial_world)"

text \<open>A template that names a placeholder twice.\<close>

definition twice_model :: model_record where
  "twice_model = subject_model\<lparr>template := Some (str ''{subject} and {subject}'')\<rparr>"

text \<open>A template with a placeholder the builder does not know.\<close>

definition camera_pieces :: "piece list" where
  "camera_pieces =
     [Token (str ''subject''), Text (str '' | ''), Token (str ''camera''), Text (str '' | ''),
      Token (str ''stylize'')]"

definition camera_model :: model_record where
  "camera_model = subject_model\<lparr>template := Some (flat camera_pieces)\<rparr>"

section \<open>Evaluation lemmas\<close>

lemma show_nat_digit [simp]: "n < 10 \<Longrightarrow> show_nat n = [48 + n]"
  by (simp add: show_nat.simps)

lemma show_nat_step [simp]:
  "\<not> n < 10 \<Longrightarrow> show_nat n = show_nat (n div 10) @ [48 + n mod 10]"
  by (subst show_nat.simps) simp

lemma object_keys_Nil [simp]: "object_keys [] = []"
  by (simp add: object_keys_def)

lemma translate_Nil [simp]: "translate t [] = t"
  by (simp add: translate_def sort_by_length_desc_def)

lemma object_assign_Nil [simp]: "object_assign t [] = t"
  by (simp add: object_assign_def)

lemmas slot_defs = parse_def parts_of_def js_trim_def isWhiteSpace_def is_delimiter_def
  or_default_def at_index_def test_any_def lighting_keywords_def materials_keywords_def
  mood_keywords_def composition_keywords_def str_def

lemmas translate_defs = translate_def object_keys_def array_index_def sort_by_length_desc_def
  translate_key_def get_prop_def js_replace_all_def str_def

section \<open>The translator is not idempotent\<close>

text \<open>
  Claim C10. \<^verbatim>\<open>translate\<close> is not idempotent: there are a lexicon in which a translation
  value contains another key as a substring, and a text, for which translating the
  translation again changes it. With \<^verbatim>\<open>{"c": "ab", "ab": "x"}\<close> the text \<^verbatim>\<open>c\<close> becomes
  \<^verbatim>\<open>ab\<close> (the longer key \<^verbatim>\<open>ab\<close> is tried first and does not occur yet), and a second
  translation turns the \<^verbatim>\<open>ab\<close> that the first one introduced into \<^verbatim>\<open>x\<close>.
\<close>

theorem translate_not_idempotent:
  "\<exists>L T k v k'. (k, v) \<in> set L \<and> k' \<in> set (object_keys L) \<and> k' \<noteq> k \<and> sublist k' v
      \<and> translate (translate T L) L \<noteq> translate T L"
proof -
  let ?L = "[(str ''c'', str ''ab''), (str ''ab'', str ''x'')]"
  have once: "translate (str ''c'') ?L = str ''ab''"
    by (simp add: translate_defs)
  have twice: "translate (str ''ab'') ?L = str ''x''"
    by (simp add: translate_defs)
  have keys: "str ''ab'' \<in> set (object_keys ?L)"
    by (simp add: object_keys_def array_index_def str_def)
  have "(str ''c'', str ''ab'') \<in> set ?L \<and> str ''ab'' \<in> set (object_keys ?L)
      \<and> str ''ab'' \<noteq> str ''c'' \<and> sublist (str ''ab'') (str ''ab'')
      \<and> translate (translate (str ''c'') ?L) ?L \<noteq> translate (str ''c'') ?L"
    using keys by (simp add: once twice) (simp add: str_def)
  then show ?thesis by blast
qed

section \<open>The end-to-end example\<close>

lemma example_parse:
  "parse (str ''a red shoe, on a wooden table'') =
    \<lparr> subject = str ''a red shoe'', environment = str ''on a wooden table'',
      lighting = str ''soft diffuse lighting'', materials = str ''glass, metal, plastic'',
      mood = str ''elegant and fresh'', composition = str ''centered hero close-up'',
      details = str ''crisp label, accurate color, subtle reflections'', duration = 4 \<rparr>"
  by (simp add: slot_defs)

lemma example_eval:
  "buildPrompt (g\<lparr>gg_lexicon := []\<rparr>)
     (m\<lparr>model_params := Some \<lparr> aspectKey = Some (str ''--ar''), stylizeKey = Some (str ''--s''),
                                seedKey = None, negativeKey = None \<rparr>,
        template := Some (str ''{subject} in {environment}, {lighting}. Parameters: {aspect} {stylize}''),
        lexicon := None\<rparr>)
     (str ''a red shoe, on a wooden table'') engine
     \<lparr> aspect = Some (str ''16:9''), stylize = Some (Whole (Abs_safe_int 80)), seed = None, negative = None \<rparr>
   = \<lparr> full = shoe_output, params = str ''--ar 16:9 --s 80'' \<rparr>"
proof -
  define ps where "ps = \<lparr> aspectKey = Some (str ''--ar''), stylizeKey = Some (str ''--s''),
                           seedKey = None, negativeKey = None \<rparr>"
  define tpl where
    "tpl = str ''{subject} in {environment}, {lighting}. Parameters: {aspect} {stylize}''"
  define opts where
    "opts = \<lparr> aspect = Some (str ''16:9''), stylize = Some (Whole (Abs_safe_int 80)), seed = None, negative = None \<rparr>"
  define input where "input = str ''a red shoe, on a wooden table''"
  let ?m = "m\<lparr>model_params := Some ps, template := Some tpl, lexicon := None\<rparr>"
  let ?g = "g\<lparr>gg_lexicon := []\<rparr>"
  have p: "parse input =
    \<lparr> subject = str ''a red shoe'', environment = str ''on a wooden table'',
      lighting = str ''soft diffuse lighting'', materials = str ''glass, metal, plastic'',
      mood = str ''elegant and fresh'', composition = str ''centered hero close-up'',
      details = str ''crisp label, accurate color, subtle reflections'', duration = 4 \<rparr>"
    unfolding input_def by (rule example_parse)
  have lx: "mergedLexicon ?g ?m = []"
    by (simp add: mergedLexicon_def)
  have a: "aspectToken ps opts = str ''--ar 16:9''"
    by (simp add: aspectToken_def ps_def opts_def key_text_def str_def)
  have s: "stylizeToken ps opts = str ''--s 80''"
    by (simp add: stylizeToken_def ps_def opts_def key_text_def str_def show_int_def Abs_safe_int_inverse)
  have sd: "seedToken ps opts = []"
    by (simp add: seedToken_def opts_def)
  have n: "negativeToken ps [] opts = []"
    by (simp add: negativeToken_def opts_def)
  have f: "fill (substitutions (translate_slots [] (parse input)) engine
             (str ''--ar 16:9'') (str ''--s 80'') [] []) tpl = shoe_output"
    unfolding p tpl_def shoe_output_def
    by (simp add: translate_slots_def substitutions_def fill_def js_replace_def str_def
        js_trim_def isWhiteSpace_def)
  have q: "paramsLine shoe_output = str ''--ar 16:9 --s 80''"
    unfolding shoe_output_def
    by (simp add: paramsLine_def str_def isLineTerminator_def js_trim_def isWhiteSpace_def)
  have b: "buildPrompt ?g ?m input engine opts
             = \<lparr> full = shoe_output, params = str ''--ar 16:9 --s 80'' \<rparr>"
    unfolding buildPrompt_def Let_def lx
    by (simp add: params_of_def a s sd n f q)
  then show ?thesis
    unfolding ps_def tpl_def opts_def input_def .
qed

lemma shoe_eval:
  "buildPrompt (GlobalGuidelines initial_world) shoe_model shoe_text [] shoe_options
     = \<lparr> full = shoe_output, params = str ''--ar 16:9 --s 80'' \<rparr>"
  using example_eval [of "GlobalGuidelines initial_world" shoe_model "[]"]
  by (simp add: shoe_model_def shoe_options_def shoe_text_def initial_world_def)

text \<open>
  Claim C2. The model record with template
  \<^verbatim>\<open>{subject} in {environment}, {lighting}. Parameters: {aspect} {stylize}\<close> and parameter
  keys \<^verbatim>\<open>--ar\<close> and \<^verbatim>\<open>--s\<close>, built on the text \<^verbatim>\<open>a red shoe, on a wooden table\<close> with
  aspect \<^verbatim>\<open>16:9\<close> and stylize 80, no lexicon at all and any engine: the slots are the two
  segments and the default lighting, the rendered text ends with
  \<^verbatim>\<open>Parameters: --ar 16:9 --s 80\<close>, and the parameter field is \<^verbatim>\<open>--ar 16:9 --s 80\<close>.
\<close>

theorem example_build:
  "buildPrompt (g\<lparr>gg_lexicon := []\<rparr>)
     (m\<lparr>model_params := Some \<lparr> aspectKey = Some (str ''--ar''), stylizeKey = Some (str ''--s''),
                                seedKey = None, negativeKey = None \<rparr>,
        template := Some (str ''{subject} in {environment}, {lighting}. Parameters: {aspect} {stylize}''),
        lexicon := None\<rparr>)
     (str ''a red shoe, on a wooden table'') engine
     \<lparr> aspect = Some (str ''16:9''), stylize = Some (Whole (Abs_safe_int 80)), seed = None, negative = None \<rparr>
   = \<lparr> full = str ''a red shoe in on a wooden table, soft diffuse lighting. Parameters: --ar 16:9 --s 80'',
       params = str ''--ar 16:9 --s 80'' \<rparr>
   \<and> suffix (str ''Parameters: --ar 16:9 --s 80'')
        (str ''a red shoe in on a wooden table, soft diffuse lighting. Parameters: --ar 16:9 --s 80'')
   \<and> subject (parse (str ''a red shoe, on a wooden table'')) = str ''a red shoe''
   \<and> environment (parse (str ''a red shoe, on a wooden table'')) = str ''on a wooden table''
   \<and> lighting (parse (str ''a red shoe, on a wooden table'')) = str ''soft diffuse lighting''"
proof -
  have e: "suffix (str ''Parameters: --ar 16:9 --s 80'')
        (str ''a red shoe in on a wooden table, soft diffuse lighting. Parameters: --ar 16:9 --s 80'')"
    by (simp add: str_def suffix_def)
  show ?thesis
    using e by (simp add: example_eval example_parse shoe_output_def)
qed

section \<open>Slots are never empty\<close>

lemma or_default_nonempty: "d \<noteq> [] \<Longrightarrow> or_default x d \<noteq> []"
  by (simp add: or_default_def split: option.splits)

lemma or_default_None [simp]: "or_default None d = d"
  by (simp add: or_default_def)

lemma or_default_Nil [simp]: "or_default (Some []) d = d"
  by (simp add: or_default_def)

lemma str_nonempty: "s \<noteq> [] \<Longrightarrow> str s \<noteq> []"
  by (simp add: str_def)

lemma parts_of_Nil: "parts_of [] = []"
  by (simp add: parts_of_def js_trim_def)

lemma parse_Nil:
  "parse [] =
     \<lparr> subject = str ''product beauty shot'',
       environment = str ''studio setting with clean background'',
       lighting = str ''soft diffuse lighting'', materials = str ''glass, metal, plastic'',
       mood = str ''elegant and fresh'', composition = str ''centered hero close-up'',
       details = str ''crisp label, accurate color, subtle reflections'', duration = 4 \<rparr>"
  by (simp add: parse_def parts_of_Nil at_index_def)

text \<open>
  Claim C6. For every text, \<^verbatim>\<open>SlotParser.parse\<close> returns the seven string slots
  non-empty and the duration 4. A slot for which the text yields nothing (no first or
  second segment, no segment with a keyword of the slot, no segment from the third on)
  is its fixed default.
\<close>

theorem parse_slots_nonempty:
  "subject (parse T) \<noteq> [] \<and> environment (parse T) \<noteq> [] \<and> lighting (parse T) \<noteq> []
   \<and> materials (parse T) \<noteq> [] \<and> mood (parse T) \<noteq> [] \<and> composition (parse T) \<noteq> []
   \<and> details (parse T) \<noteq> [] \<and> duration (parse T) = 4
   \<and> (length (parts_of T) < 1 \<longrightarrow> subject (parse T) = str ''product beauty shot'')
   \<and> (length (parts_of T) < 2 \<longrightarrow>
        environment (parse T) = str ''studio setting with clean background'')
   \<and> (find (test_any lighting_keywords) (parts_of T) = None \<longrightarrow>
        lighting (parse T) = str ''soft diffuse lighting'')
   \<and> (find (test_any materials_keywords) (parts_of T) = None \<longrightarrow>
        materials (parse T) = str ''glass, metal, plastic'')
   \<and> (find (test_any mood_keywords) (parts_of T) = None \<longrightarrow>
        mood (parse T) = str ''elegant and fresh'')
   \<and> (find (test_any composition_keywords) (parts_of T) = None \<longrightarrow>
        composition (parse T) = str ''centered hero close-up'')
   \<and> (length (parts_of T) \<le> 2 \<longrightarrow>
        details (parse T) = str ''crisp label, accurate color, subtle reflections'')"
  by (simp add: parse_def Let_def or_default_nonempty str_nonempty at_index_def)

text \<open>The empty text: no segment at all, and every slot is its default.\<close>

theorem parse_slots_nonempty_witness:
  "length (parts_of []) < 1
   \<and> find (test_any lighting_keywords) (parts_of []) = None
   \<and> find (test_any materials_keywords) (parts_of []) = None
   \<and> find (test_any mood_keywords) (parts_of []) = None
   \<and> find (test_any composition_keywords) (parts_of []) = None
   \<and> subject (parse []) = str ''product beauty shot''
   \<and> environment (parse []) = str ''studio setting with clean background''
   \<and> lighting (parse []) = str ''soft diffuse lighting''
   \<and> materials (parse []) = str ''glass, metal, plastic''
   \<and> mood (parse []) = str ''elegant and fresh''
   \<and> composition (parse []) = str ''centered hero close-up''
   \<and> details (parse []) = str ''crisp label, accurate color, subtle reflections''
   \<and> duration (parse []) = 4"
  using parse_slots_nonempty [of "[]"] by (simp add: parts_of_Nil)

section \<open>The build of the token model\<close>

lemma token_fill:
  "fill (substitutions (translate_slots [] (parse [])) [] [] (str ''--s 50'') [] [])
     (str ''{aspect}|{seed}|{negative}|{stylize}'') = str ''|||--s 50''"
  unfolding parse_Nil
  by (simp add: translate_slots_def substitutions_def fill_def js_replace_def str_def
      js_trim_def isWhiteSpace_def)

lemma token_eval:
  "buildPrompt (GlobalGuidelines initial_world) token_model [] [] empty_options
     = \<lparr> full = str ''|||--s 50'', params = [] \<rparr>"
proof -
  have lx: "mergedLexicon (GlobalGuidelines initial_world) token_model = []"
    by (simp add: mergedLexicon_def initial_world_def token_model_def)
  have pm: "params_of token_model = all_keys"
    by (simp add: params_of_def token_model_def)
  have tk: "aspectToken all_keys empty_options = []" "seedToken all_keys empty_options = []"
    "negativeToken all_keys [] empty_options = []"
    "stylizeToken all_keys empty_options = str ''--s 50''"
    by (simp_all add: aspectToken_def seedToken_def negativeToken_def stylizeToken_def
        all_keys_def empty_options_def key_text_def show_int_def Abs_safe_int_inverse str_def)
  have q: "paramsLine (str ''|||--s 50'') = []"
    by (simp add: paramsLine_def str_def)
  show ?thesis
    unfolding buildPrompt_def Let_def lx pm tk
    by (simp add: token_model_def token_fill q)
qed

section \<open>Loading guidelines when the fetch fails\<close>

lemma fetch_configured_fails:
  "fetchJson e (case sourceUrl of
                  None \<Rightarrow> str ''../assets/models.json''
                | Some u \<Rightarrow> if u = [] then str ''../assets/models.json'' else u) = Inl err
   \<Longrightarrow> fetch_configured e sourceUrl = Inl err"
  by (auto simp: fetch_configured_def split: option.splits)

lemma keys_differ: "SOURCE_URL \<noteq> CACHED_JSON"
  by (simp add: SOURCE_URL_def CACHED_JSON_def str_def)

lemma offline_fetch: "fetchJson offline_env url = Inl TypeError"
  by (simp add: fetchJson_def offline_env_def)

text \<open>
  Claim C4. When the configured fetch (the stored source URL if there is one, the bundled
  file otherwise) fails and storage holds a cached document text, \<^verbatim>\<open>loadGuidelines\<close>
  returns the document parsed from that text with its source set to \<^verbatim>\<open>cache\<close>, and
  storage is what it was: nothing is written.
\<close>

theorem cache_fallback:
  assumes "fetchJson e (case localStorage w SOURCE_URL of
                          None \<Rightarrow> str ''../assets/models.json''
                        | Some u \<Rightarrow> if u = [] then str ''../assets/models.json'' else u) = Inl err"
    and "localStorage w CACHED_JSON = Some cached"
    and "cached \<noteq> []"
    and "JSON_parse e cached = Inr d"
  shows "fst (loadGuidelines e w) = Inr (d\<lparr>source := Some (str ''cache'')\<rparr>)
    \<and> localStorage (snd (loadGuidelines e w)) = localStorage w"
  using fetch_configured_fails [OF assms(1)] assms(2-4)
  by (simp add: loadGuidelines_def publish_def)

text \<open>Offline, with \<^verbatim>\<open>{}\<close> in the cache and no source URL stored.\<close>

theorem cache_fallback_witness:
  "fetchJson offline_env (str ''../assets/models.json'') = Inl TypeError
   \<and> localStorage cached_world SOURCE_URL = None
   \<and> localStorage cached_world CACHED_JSON = Some (str ''{}'')
   \<and> str ''{}'' \<noteq> []
   \<and> JSON_parse offline_env (str ''{}'') = Inr empty_doc
   \<and> fst (loadGuidelines offline_env cached_world)
       = Inr (empty_doc\<lparr>source := Some (str ''cache'')\<rparr>)
   \<and> localStorage (snd (loadGuidelines offline_env cached_world))
       = localStorage cached_world"
proof -
  have u: "localStorage cached_world SOURCE_URL = None"
    using keys_differ by (simp add: cached_world_def initial_world_def)
  have c: "localStorage cached_world CACHED_JSON = Some (str ''{}'')"
    by (simp add: cached_world_def)
  have n: "str ''{}'' \<noteq> []"
    by (simp add: str_def)
  have p: "JSON_parse offline_env (str ''{}'') = Inr empty_doc"
    by (simp add: offline_env_def)
  have f: "fetchJson offline_env (case localStorage cached_world SOURCE_URL of
              None \<Rightarrow> str ''../assets/models.json''
            | Some u \<Rightarrow> if u = [] then str ''../assets/models.json'' else u) = Inl TypeError"
    by (simp add: offline_fetch)
  show ?thesis
    using cache_fallback [OF f c n p] u c n p by (simp add: offline_fetch)
qed

text \<open>
  Claim C5. When the configured fetch fails and storage holds no cached document (no
  entry, or the empty text, which the loader takes for none), \<^verbatim>\<open>loadGuidelines\<close> fails
  with the error of the fetch, and the whole state is what it was: the published
  \<^verbatim>\<open>GlobalGuidelines\<close>, the builder registry and storage.
\<close>

theorem no_cache_failure:
  assumes "fetchJson e (case localStorage w SOURCE_URL of
                          None \<Rightarrow> str ''../assets/models.json''
                        | Some u \<Rightarrow> if u = [] then str ''../assets/models.json'' else u) = Inl err"
    and "localStorage w CACHED_JSON = None \<or> localStorage w CACHED_JSON = Some []"
  shows "loadGuidelines e w = (Inl err, w)"
  using fetch_configured_fails [OF assms(1)] assms(2)
  by (auto simp: loadGuidelines_def)

text \<open>Offline on the first visit: nothing stored yet.\<close>

theorem no_cache_failure_witness:
  "fetchJson offline_env (str ''../assets/models.json'') = Inl TypeError
   \<and> localStorage initial_world SOURCE_URL = None
   \<and> localStorage initial_world CACHED_JSON = None
   \<and> loadGuidelines offline_env initial_world = (Inl TypeError, initial_world)"
proof -
  have s: "localStorage initial_world k = None" for k
    by (simp add: initial_world_def)
  have f: "fetchJson offline_env (case localStorage initial_world SOURCE_URL of
              None \<Rightarrow> str ''../assets/models.json''
            | Some u \<Rightarrow> if u = [] then str ''../assets/models.json'' else u) = Inl TypeError"
    by (simp add: offline_fetch)
  show ?thesis
    using no_cache_failure [OF f disjI1 [OF s]] by (simp add: s offline_fetch)
qed

section \<open>The parameter line\<close>

lemma find_first_sound:
  "find_first pat s = Some (b, a) \<Longrightarrow> s = b @ pat @ a"
proof (induction s arbitrary: b)
  case Nil
  then show ?case by (simp split: if_splits)
next
  case (Cons c cs)
  show ?case
  proof (cases "prefix pat (c # cs)")
    case True
    then have "find_first pat (c # cs) = Some ([], drop (length pat) (c # cs))"
      by simp
    with Cons.prems have ba: "b = []" "a = drop (length pat) (c # cs)"
      by simp_all
    from True obtain zs where zs: "c # cs = pat @ zs"
      by (auto simp: prefix_def)
    then have "drop (length pat) (c # cs) = zs"
      by simp
    with ba zs show ?thesis by simp
  next
    case False
    with Cons.prems obtain b0 where "find_first pat cs = Some (b0, a)" "b = c # b0"
      by (auto split: option.splits)
    with Cons.IH show ?thesis by simp
  qed
qed

lemma find_first_least:
  "find_first pat s = Some (b, a) \<Longrightarrow> s = b' @ pat @ a' \<Longrightarrow> length b \<le> length b'"
proof (induction s arbitrary: b b')
  case Nil
  then show ?case by (simp split: if_splits)
next
  case (Cons c cs)
  show ?case
  proof (cases "prefix pat (c # cs)")
    case True
    then have "find_first pat (c # cs) = Some ([], drop (length pat) (c # cs))"
      by simp
    with Cons.prems(1) have "b = []"
      by simp
    then show ?thesis by simp
  next
    case False
    with Cons.prems(1) obtain b0 where b0: "find_first pat cs = Some (b0, a)" "b = c # b0"
      by (auto split: option.splits)
    from False Cons.prems(2) have "b' \<noteq> []" by (auto simp: prefix_def)
    with Cons.prems(2) obtain b1 where b1: "b' = c # b1" "cs = b1 @ pat @ a'"
      by (cases b') auto
    from Cons.IH [OF b0(1) b1(2)] b0(2) b1(1) show ?thesis by simp
  qed
qed

lemma find_first_None: "find_first pat s = None \<longleftrightarrow> \<not> sublist pat s"
  by (induction s) (auto simp: sublist_Cons_right split: option.splits)

lemma find_first_unique:
  assumes "s = b @ pat @ a"
    and "\<forall>b' a'. s = b' @ pat @ a' \<longrightarrow> length b \<le> length b'"
  shows "find_first pat s = Some (b, a)"
proof -
  have "sublist pat s"
    using assms(1) by (auto simp: sublist_def)
  then obtain b0 a0 where f: "find_first pat s = Some (b0, a0)"
    using find_first_None [of pat s] by (cases "find_first pat s") auto
  have s0: "s = b0 @ pat @ a0"
    using find_first_sound [OF f] .
  have "length b0 \<le> length b"
    using find_first_least [OF f assms(1)] .
  moreover have "length b \<le> length b0"
    using assms(2) s0 by blast
  ultimately have "length b = length b0" by simp
  with assms(1) s0 have "b = b0 \<and> a = a0" by simp
  with f show ?thesis by simp
qed

lemma takeWhile_line:
  assumes "\<forall>c\<in>set l. \<not> isLineTerminator c" and "rest = [] \<or> isLineTerminator (hd rest)"
  shows "takeWhile (\<lambda>c. \<not> isLineTerminator c) (l @ rest) = l"
proof (cases rest)
  case Nil
  with assms(1) show ?thesis by simp
next
  case (Cons c cs)
  with assms show ?thesis by (simp add: takeWhile_append2)
qed

lemma params_is_paramsLine:
  "params (buildPrompt g m input engine uiOptions)
     = paramsLine (full (buildPrompt g m input engine uiOptions))"
  by (simp add: buildPrompt_def Let_def)

lemma shoe_marker:
  "find_first (str ''Parameters:'') shoe_output
     = Some (str ''a red shoe in on a wooden table, soft diffuse lighting. '',
             str '' --ar 16:9 --s 80'')"
  by (simp add: shoe_output_def str_def)

text \<open>
  Claim C3, as stated, fails: the marker is not looked for at the beginning of a line.
  The output of the end-to-end example is a single line that does not begin with
  \<^verbatim>\<open>Parameters:\<close>, so no line of it does, and yet the parameter field is not empty.
\<close>

theorem params_marker_inside_line:
  "full (buildPrompt (GlobalGuidelines initial_world) shoe_model shoe_text [] shoe_options)
     = str ''a red shoe in on a wooden table, soft diffuse lighting. Parameters: --ar 16:9 --s 80''
   \<and> list_all (\<lambda>c. \<not> isLineTerminator c)
        (full (buildPrompt (GlobalGuidelines initial_world) shoe_model shoe_text [] shoe_options))
   \<and> \<not> prefix (str ''Parameters:'')
        (full (buildPrompt (GlobalGuidelines initial_world) shoe_model shoe_text [] shoe_options))
   \<and> params (buildPrompt (GlobalGuidelines initial_world) shoe_model shoe_text [] shoe_options)
       = str ''--ar 16:9 --s 80''
   \<and> params (buildPrompt (GlobalGuidelines initial_world) shoe_model shoe_text [] shoe_options)
       \<noteq> []"
  by (simp add: shoe_eval) (simp add: shoe_output_def str_def isLineTerminator_def)

text \<open>
  Claim C3, amended. The parameter field is determined by the first occurrence of the
  text \<^verbatim>\<open>Parameters:\<close> anywhere in the rendered text: it is what follows that occurrence
  up to the end of its line (the next line terminator or the end of the text), trimmed;
  it is empty when the rendered text does not contain \<^verbatim>\<open>Parameters:\<close>.
\<close>

theorem params_from_first_marker:
  assumes "R = buildPrompt g m input engine uiOptions"
  shows "(\<not> sublist (str ''Parameters:'') (full R) \<longrightarrow> params R = [])
     \<and> (full R = b @ str ''Parameters:'' @ l @ rest
        \<and> (\<forall>b' a'. full R = b' @ str ''Parameters:'' @ a' \<longrightarrow> length b \<le> length b')
        \<and> (\<forall>c\<in>set l. \<not> isLineTerminator c)
        \<and> (rest = [] \<or> isLineTerminator (hd rest))
        \<longrightarrow> params R = js_trim l)"
proof -
  have p: "params R = paramsLine (full R)"
    using assms by (simp add: params_is_paramsLine)
  have none: "params R = []" if "\<not> sublist (str ''Parameters:'') (full R)"
    using that find_first_None [of "str ''Parameters:''" "full R"]
    by (simp add: p paramsLine_def)
  have some: "params R = js_trim l"
    if "full R = b @ str ''Parameters:'' @ l @ rest"
      and "\<forall>b' a'. full R = b' @ str ''Parameters:'' @ a' \<longrightarrow> length b \<le> length b'"
      and "\<forall>c\<in>set l. \<not> isLineTerminator c"
      and "rest = [] \<or> isLineTerminator (hd rest)"
  proof -
    have "find_first (str ''Parameters:'') (full R) = Some (b, l @ rest)"
      using find_first_unique [OF that(1) that(2)] .
    then show ?thesis
      using takeWhile_line [OF that(3) that(4)] by (simp add: p paramsLine_def)
  qed
  show ?thesis
    using none some by blast
qed

text \<open>
  The build of the token model, whose output has no marker, and the end-to-end example,
  whose marker is in the middle of the only line.
\<close>

theorem params_from_first_marker_witness:
  "\<not> sublist (str ''Parameters:'')
       (full (buildPrompt (GlobalGuidelines initial_world) token_model [] [] empty_options))
   \<and> params (buildPrompt (GlobalGuidelines initial_world) token_model [] [] empty_options) = []
   \<and> full (buildPrompt (GlobalGuidelines initial_world) shoe_model shoe_text [] shoe_options)
       = str ''a red shoe in on a wooden table, soft diffuse lighting. '' @ str ''Parameters:''
           @ str '' --ar 16:9 --s 80'' @ []
   \<and> list_all (\<lambda>c. \<not> isLineTerminator c) (str '' --ar 16:9 --s 80'')
   \<and> params (buildPrompt (GlobalGuidelines initial_world) shoe_model shoe_text [] shoe_options)
       = js_trim (str '' --ar 16:9 --s 80'')"
proof -
  let ?R1 = "buildPrompt (GlobalGuidelines initial_world) token_model [] [] empty_options"
  let ?R2 = "buildPrompt (GlobalGuidelines initial_world) shoe_model shoe_text [] shoe_options"
  let ?b = "str ''a red shoe in on a wooden table, soft diffuse lighting. ''"
  let ?l = "str '' --ar 16:9 --s 80''"
  have n1: "\<not> sublist (str ''Parameters:'') (full ?R1)"
    unfolding token_eval find_first_None [symmetric] by (simp add: str_def)
  have f2: "find_first (str ''Parameters:'') (full ?R2) = Some (?b, ?l)"
    by (simp add: shoe_eval shoe_marker)
  have d2: "full ?R2 = ?b @ str ''Parameters:'' @ ?l @ []"
    using find_first_sound [OF f2] by simp
  have m2: "\<forall>b' a'. full ?R2 = b' @ str ''Parameters:'' @ a' \<longrightarrow> length ?b \<le> length b'"
    using find_first_least [OF f2] by blast
  have l2: "\<forall>c\<in>set ?l. \<not> isLineTerminator c"
    by (simp add: str_def isLineTerminator_def)
  have p1: "params ?R1 = []"
    using params_from_first_marker [OF refl, of "GlobalGuidelines initial_world" token_model
        "[]" "[]" empty_options] n1 by blast
  have p2: "params ?R2 = js_trim ?l"
    using params_from_first_marker [OF refl, of "GlobalGuidelines initial_world" shoe_model
        shoe_text "[]" shoe_options ?b ?l "[]"] d2 m2 l2 by blast
  show ?thesis
    using n1 p1 d2 p2 l2 by (simp add: list_all_iff)
qed

section \<open>The duration slot is translated\<close>

lemma fold_fixed: "(\<And>k. f k x = x) \<Longrightarrow> fold f ks x = x"
  by (induction ks) simp_all

lemma translate_key_four:
  assumes "get_prop L (str ''4'') = None \<or> get_prop L (str ''4'') = Some []"
    and "get_prop L [] = None \<or> get_prop L [] = Some []"
  shows "translate_key L k (str ''4'') = str ''4''"
proof (cases "get_prop L k")
  case None
  then show ?thesis by (simp add: translate_key_def)
next
  case (Some v)
  show ?thesis
  proof (cases "v = []")
    case True
    with Some show ?thesis by (simp add: translate_key_def)
  next
    case False
    with Some assms have k: "k \<noteq> []" "k \<noteq> str ''4''" by auto
    then have "\<not> prefix k (str ''4'')"
      by (cases k) (auto simp: str_def)
    with k Some False show ?thesis
      by (simp add: translate_key_def js_replace_all_def str_def)
  qed
qed

lemma four_lexicon:
  "mergedLexicon (GlobalGuidelines initial_world) four_model = [(str ''4'', str ''four'')]"
  by (simp add: mergedLexicon_def initial_world_def four_model_def object_assign_def
      put_prop_def proto_key_def object_keys_def array_index_def get_prop_def str_def)

lemma four_translate: "translate (str ''4'') [(str ''4'', str ''four'')] = str ''four''"
  by (simp add: translate_defs)

lemma four_slots:
  "translate_slots [(str ''4'', str ''four'')] (parse []) =
     \<lparr> subject = str ''product beauty shot'',
       environment = str ''studio setting with clean background'',
       lighting = str ''soft diffuse lighting'', materials = str ''glass, metal, plastic'',
       mood = str ''elegant and fresh'', composition = str ''centered hero close-up'',
       details = str ''crisp label, accurate color, subtle reflections'',
       duration = str ''four'' \<rparr>"
  unfolding parse_Nil by (simp add: translate_slots_def translate_defs)

lemma four_eval:
  "buildPrompt (GlobalGuidelines initial_world) four_model [] [] empty_options
     = \<lparr> full = str ''four'', params = [] \<rparr>"
proof -
  have f: "fill (substitutions (translate_slots [(str ''4'', str ''four'')] (parse [])) []
             (aspectToken (params_of four_model) empty_options)
             (stylizeToken (params_of four_model) empty_options)
             (seedToken (params_of four_model) empty_options)
             (negativeToken (params_of four_model) [(str ''4'', str ''four'')] empty_options))
           (str ''{duration}'') = str ''four''"
    unfolding four_slots
    by (simp add: substitutions_def fill_def js_replace_def str_def js_trim_def isWhiteSpace_def)
  have t: "template four_model = Some (str ''{duration}'')"
    by (simp add: four_model_def)
  have q: "paramsLine (str ''four'') = []"
    by (simp add: paramsLine_def str_def)
  show ?thesis
    by (simp add: buildPrompt_def Let_def four_lexicon f t q)
qed

text \<open>
  Claim C8, as stated, fails: the duration goes through the translator like every other
  slot, as the text \<^verbatim>\<open>4\<close>. With the lexicon entry \<^verbatim>\<open>4\<close> \<open>\<mapsto>\<close> \<^verbatim>\<open>four\<close> the template
  \<^verbatim>\<open>{duration}\<close> renders as \<^verbatim>\<open>four\<close>.
\<close>

theorem duration_key_translated:
  "translate (str ''4'') (mergedLexicon (GlobalGuidelines initial_world) four_model) = str ''four''
   \<and> duration (translate_slots (mergedLexicon (GlobalGuidelines initial_world) four_model)
        (parse [])) = str ''four''
   \<and> full (buildPrompt (GlobalGuidelines initial_world) four_model [] [] empty_options)
       = str ''four''"
proof -
  have d: "duration (translate_slots [(str ''4'', str ''four'')] (parse [])) = str ''four''"
    by (simp add: four_slots)
  show ?thesis
    by (simp add: four_eval four_lexicon four_translate d)
qed

text \<open>
  Claim C8, amended. For every text and every merged lexicon the value paired with the
  \<^verbatim>\<open>{duration}\<close> placeholder is the translation of the text \<^verbatim>\<open>4\<close>; it is \<^verbatim>\<open>4\<close> itself
  whenever the lexicon has no non-empty translation for the key \<^verbatim>\<open>4\<close> and none for the
  empty key.
\<close>

theorem duration_translated:
  "duration (translate_slots merged (parse T)) = translate (str ''4'') merged
   \<and> map_of (substitutions (translate_slots merged (parse T)) engine a s sd n) (str ''{duration}'')
       = Some (translate (str ''4'') merged)
   \<and> ((get_prop merged (str ''4'') = None \<or> get_prop merged (str ''4'') = Some [])
        \<and> (get_prop merged [] = None \<or> get_prop merged [] = Some [])
      \<longrightarrow> translate (str ''4'') merged = str ''4'')"
proof -
  have d: "duration (translate_slots merged (parse T)) = translate (str ''4'') merged"
    by (simp add: translate_slots_def parse_def Let_def str_def)
  have m: "map_of (substitutions ts engine a s sd n) (str ''{duration}'') = Some (duration ts)"
    for ts :: "jsstring slots"
    by (simp add: substitutions_def str_def)
  have t: "translate (str ''4'') merged = str ''4''"
    if "get_prop merged (str ''4'') = None \<or> get_prop merged (str ''4'') = Some []"
      and "get_prop merged [] = None \<or> get_prop merged [] = Some []"
    unfolding translate_def
    by (rule fold_fixed) (rule translate_key_four [OF that])
  show ?thesis
    using d m t by simp
qed

text \<open>A lexicon with one Korean key: the duration stays \<^verbatim>\<open>4\<close>.\<close>

theorem duration_translated_witness:
  "get_prop light_lexicon (str ''4'') = None \<and> get_prop light_lexicon [] = None
   \<and> duration (translate_slots light_lexicon (parse [])) = str ''4''
   \<and> translate (str ''4'') light_lexicon = str ''4''"
proof -
  have g: "get_prop light_lexicon (str ''4'') = None" "get_prop light_lexicon [] = None"
    by (simp_all add: light_lexicon_def get_prop_def str_def)
  show ?thesis
    using duration_translated [of light_lexicon "[]"] g by simp
qed

section \<open>The merged lexicon\<close>

lemma get_prop_Nil [simp]: "get_prop [] k = None"
  by (simp add: get_prop_def)

lemma map_of_set_prop: "map_of (set_prop k v t) = (map_of t)(k \<mapsto> v)"
  by (induction t) (auto simp: fun_eq_iff)

lemma set_prop_fresh: "k \<notin> fst ` set t \<Longrightarrow> set_prop k v t = t @ [(k, v)]"
  by (induction t) auto

lemma map_of_put_prop:
  "map_of t proto_key = None \<Longrightarrow>
   map_of (put_prop k v t) = (if k = proto_key then map_of t else (map_of t)(k \<mapsto> v))"
  by (simp add: put_prop_def get_prop_def map_of_set_prop)

lemma set_object_keys: "set (object_keys obj) = fst ` set obj"
  by (auto simp: object_keys_def Let_def)

lemma distinct_object_keys: "distinct (object_keys obj)"
  by (auto simp: object_keys_def Let_def)

lemma fold_assign_lookup:
  "map_of t proto_key = None \<Longrightarrow>
   map_of (fold (\<lambda>k t. case map_of src k of None \<Rightarrow> t | Some v \<Rightarrow> put_prop k v t) ks t) k
     = (if k \<in> set ks \<and> k \<noteq> proto_key
        then (case map_of src k of None \<Rightarrow> map_of t k | Some v \<Rightarrow> Some v)
        else map_of t k)"
proof (induction ks arbitrary: t)
  case Nil
  then show ?case by simp
next
  case (Cons x xs)
  show ?case
  proof (cases "map_of src x")
    case None
    with Cons show ?thesis by (auto split: option.splits)
  next
    case (Some v)
    have p: "map_of (put_prop x v t) proto_key = None"
      using Cons.prems by (simp add: map_of_put_prop)
    show ?thesis
      using Some Cons.prems
      by (auto simp: Cons.IH [OF p] map_of_put_prop split: option.splits)
  qed
qed

lemma get_prop_object_assign:
  assumes "get_prop t proto_key = None"
  shows "get_prop (object_assign t src) k
     = (if k = proto_key then None
        else (case get_prop src k of None \<Rightarrow> get_prop t k | Some v \<Rightarrow> Some v))"
proof -
  have t: "map_of t proto_key = None"
    using assms by (simp add: get_prop_def)
  have n: "map_of src k = None" if "k \<notin> set (object_keys src)"
    using that by (simp add: set_object_keys map_of_eq_None_iff)
  show ?thesis
    using t n
    by (auto simp: object_assign_def get_prop_def fold_assign_lookup [OF t] split: option.splits)
qed

lemma fold_assign_fresh:
  "distinct ks \<Longrightarrow> set ks \<subseteq> fst ` set src \<Longrightarrow> set ks \<inter> fst ` set t = {}
   \<Longrightarrow> proto_key \<notin> fst ` set t
   \<Longrightarrow> fold (\<lambda>k t. case map_of src k of None \<Rightarrow> t | Some v \<Rightarrow> put_prop k v t) ks t
       = t @ map (\<lambda>k. (k, the (map_of src k))) (filter (\<lambda>k. k \<noteq> proto_key) ks)"
proof (induction ks arbitrary: t)
  case Nil
  then show ?case by simp
next
  case (Cons x xs)
  from Cons.prems(2) have "map_of src x \<noteq> None"
    by (simp add: map_of_eq_None_iff)
  then obtain v where v: "map_of src x = Some v"
    by auto
  have np: "map_of t proto_key = None"
    using Cons.prems(4) by (simp add: map_of_eq_None_iff)
  show ?case
  proof (cases "x = proto_key")
    case True
    then have "put_prop x v t = t"
      using np by (simp add: put_prop_def get_prop_def)
    with Cons.IH [of t] Cons.prems v True show ?thesis
      by auto
  next
    case False
    from Cons.prems(3) have f: "put_prop x v t = t @ [(x, v)]"
      using False by (simp add: put_prop_def set_prop_fresh)
    have "set xs \<inter> fst ` set (t @ [(x, v)]) = {}"
      using Cons.prems(1,3) by auto
    moreover have "proto_key \<notin> fst ` set (t @ [(x, v)])"
      using Cons.prems(4) False by auto
    ultimately show ?thesis
      using Cons.IH [of "t @ [(x, v)]"] Cons.prems(1,2) v f False by simp
  qed
qed

lemma object_assign_empty:
  "object_assign [] src
     = map (\<lambda>k. (k, the (map_of src k))) (filter (\<lambda>k. k \<noteq> proto_key) (object_keys src))"
  unfolding object_assign_def get_prop_def
  using fold_assign_fresh [of "object_keys src" src "[]"]
  by (simp add: distinct_object_keys set_object_keys)

lemma object_keys_ordered:
  assumes "distinct (A @ B)"
    and "\<forall>k \<in> set A. array_index k \<noteq> None"
    and "sorted (map (\<lambda>k. the (array_index k)) A)"
    and "\<forall>k \<in> set B. array_index k = None"
  shows "object_keys (map (\<lambda>k. (k, f k)) (A @ B)) = A @ B"
proof -
  have r: "rev (remdups (rev (A @ B))) = A @ B"
    using assms(1) by (metis distinct_remdups_id distinct_rev rev_rev_ident)
  have pa: "filter (\<lambda>k. array_index k \<noteq> None) A = A" "filter (\<lambda>k. array_index k = None) A = []"
    using assms(2) by (auto simp: filter_empty_conv)
  have pb: "filter (\<lambda>k. array_index k \<noteq> None) B = []" "filter (\<lambda>k. array_index k = None) B = B"
    using assms(4) by (auto simp: filter_empty_conv)
  have sa: "sort_key (\<lambda>k. the (array_index k)) A = A"
    using assms(3) by (rule sort_key_id_if_sorted)
  have m: "map fst (map (\<lambda>k. (k, f k)) (A @ B)) = A @ B"
    by (simp add: o_def)
  show ?thesis
    unfolding object_keys_def Let_def m r
    by (simp only: filter_append pa pb sa append_Nil append_Nil2)
qed

lemma object_keys_parts:
  "\<exists>A B. object_keys obj = A @ B \<and> (\<forall>k \<in> set A. array_index k \<noteq> None)
      \<and> sorted (map (\<lambda>k. the (array_index k)) A) \<and> (\<forall>k \<in> set B. array_index k = None)"
  by (rule exI [of _ "sort_key (\<lambda>k. the (array_index k))
        (filter (\<lambda>k. array_index k \<noteq> None) (rev (remdups (rev (map fst obj)))))"],
      rule exI [of _ "filter (\<lambda>k. array_index k = None) (rev (remdups (rev (map fst obj))))"])
    (auto simp: object_keys_def Let_def)

lemma object_keys_filtered_entries:
  "object_keys (map (\<lambda>k. (k, f k)) (filter Q (object_keys obj))) = filter Q (object_keys obj)"
proof -
  obtain A B where K: "object_keys obj = A @ B"
    and a: "\<forall>k \<in> set A. array_index k \<noteq> None"
    and s: "sorted (map (\<lambda>k. the (array_index k)) A)"
    and b: "\<forall>k \<in> set B. array_index k = None"
    using object_keys_parts [of obj] by blast
  have d: "distinct (filter Q A @ filter Q B)"
    using distinct_object_keys [of obj] unfolding K by auto
  have "object_keys (map (\<lambda>k. (k, f k)) (filter Q A @ filter Q B)) = filter Q A @ filter Q B"
    using d a b sorted_filter [OF s, of Q] by (intro object_keys_ordered) auto
  then show ?thesis
    by (simp add: K)
qed

lemma array_index_proto: "array_index proto_key = None"
  by (simp add: array_index_def proto_key_def str_def)

lemma object_keys_without_proto:
  "object_keys (without_proto obj) = filter (\<lambda>k. k \<noteq> proto_key) (object_keys obj)"
proof -
  have m: "map fst (without_proto obj) = filter (\<lambda>k. k \<noteq> proto_key) (map fst obj)"
    by (induction obj) (auto simp: without_proto_def)
  have r: "rev (remdups (rev (filter Q xs))) = filter Q (rev (remdups (rev xs)))"
    for Q and xs :: "jsstring list"
    by (simp add: rev_filter remdups_filter)
  show ?thesis
    unfolding object_keys_def Let_def m r
    by (simp add: filter_sort conj_commute)
qed

lemma get_prop_without_proto:
  "get_prop (without_proto obj) k = (if k = proto_key then None else get_prop obj k)"
  by (induction obj) (auto simp: without_proto_def get_prop_def)

lemma translate_cong:
  assumes "object_keys L = object_keys L'" and "\<And>k. get_prop L k = get_prop L' k"
  shows "translate t L = translate t L'"
proof -
  have "translate_key L = translate_key L'"
    by (simp add: fun_eq_iff translate_key_def assms(2))
  then show ?thesis
    by (simp add: translate_def assms(1))
qed

lemma translate_object_assign_empty:
  "translate t (object_assign [] src) = translate t (without_proto src)"
proof (rule translate_cong)
  show "object_keys (object_assign [] src) = object_keys (without_proto src)"
    by (simp add: object_assign_empty object_keys_filtered_entries object_keys_without_proto)
  show "get_prop (object_assign [] src) k = get_prop (without_proto src) k" for k
    by (simp add: get_prop_object_assign get_prop_without_proto split: option.splits)
qed

lemma get_prop_assign_proto: "get_prop (object_assign [] src) proto_key = None"
  by (simp add: get_prop_object_assign)

lemma published_lexicon:
  "fst (loadGuidelines e w) = Inr d \<Longrightarrow> gg_lexicon (GlobalGuidelines (snd (loadGuidelines e w))) = []"
  by (auto simp: loadGuidelines_def publish_def split: sum.splits option.splits if_splits)

lemma translate_slots_cong:
  "(\<And>t. translate t L = translate t L') \<Longrightarrow> translate_slots L s = translate_slots L' s"
  by (simp add: translate_slots_def)

lemma negativeToken_cong:
  "(\<And>t. translate t L = translate t L') \<Longrightarrow> negativeToken ps L o1 = negativeToken ps L' o1"
  by (simp add: negativeToken_def split: option.splits)

lemma online_load:
  "loadGuidelines online_env initial_world =
     (Inr (lexicon_doc\<lparr>source := Some (str ''local'')\<rparr>),
      \<lparr> GlobalGuidelines =
          \<lparr> gg_version = str ''1.0.0'', gg_updatedAt = str ''2025-01-01'', gg_lexicon = [],
            gg_models = Some [subject_model] \<rparr>,
        builders = [str ''sd'' \<mapsto> subject_model],
        localStorage = [CACHED_JSON \<mapsto> str ''{}''] \<rparr>)"
proof -
  have f: "fetch_configured online_env None = Inr (lexicon_doc\<lparr>source := Some (str ''local'')\<rparr>)"
    by (simp add: fetch_configured_def fetchJson_def online_env_def)
  have v: "str ''1.0.0'' \<noteq> []" "str ''2025-01-01'' \<noteq> []"
    by (simp_all add: str_def)
  have i: "installFromGuidelines (lexicon_doc\<lparr>source := Some (str ''local'')\<rparr>)
             = [str ''sd'' \<mapsto> subject_model]"
    by (simp add: installFromGuidelines_def lexicon_doc_def subject_model_def)
  have s: "localStorage initial_world SOURCE_URL = None"
    by (simp add: initial_world_def)
  show ?thesis
    unfolding loadGuidelines_def s f
    by (simp add: publish_def i) (simp add: lexicon_doc_def initial_world_def or_default_def v online_env_def)
qed

lemma light_parse:
  "parse [48731] =
     \<lparr> subject = [48731],
       environment = str ''studio setting with clean background'',
       lighting = [48731], materials = str ''glass, metal, plastic'',
       mood = str ''elegant and fresh'', composition = str ''centered hero close-up'',
       details = str ''crisp label, accurate color, subtle reflections'', duration = 4 \<rparr>"
  by (simp add: slot_defs)

lemma light_translate: "translate [48731] light_lexicon = str ''light''"
  by (simp add: light_lexicon_def translate_defs)

lemma without_proto_light: "without_proto light_lexicon = light_lexicon"
  by (simp add: without_proto_def light_lexicon_def proto_key_def str_def)

lemma subject_eval:
  "gg_lexicon g = [] \<Longrightarrow>
   buildPrompt g subject_model [48731] [] empty_options = \<lparr> full = [48731], params = [] \<rparr>"
proof -
  assume g: "gg_lexicon g = []"
  have lx: "mergedLexicon g subject_model = []"
    by (simp add: mergedLexicon_def g subject_model_def)
  have t: "template subject_model = Some (str ''{subject}'')"
    by (simp add: subject_model_def)
  have f: "fill (substitutions (translate_slots [] (parse [48731])) []
             (aspectToken (params_of subject_model) empty_options)
             (stylizeToken (params_of subject_model) empty_options)
             (seedToken (params_of subject_model) empty_options)
             (negativeToken (params_of subject_model) [] empty_options))
           (str ''{subject}'') = [48731]"
    unfolding light_parse
    by (simp add: translate_slots_def substitutions_def fill_def js_replace_def str_def
        js_trim_def isWhiteSpace_def)
  have q: "paramsLine [48731] = []"
    by (simp add: paramsLine_def str_def)
  show ?thesis
    unfolding buildPrompt_def Let_def lx t
    by (simp add: f q)
qed

lemma proto_slots:
  "translate_slots (without_proto proto_lexicon) (parse [48731]) =
     \<lparr> subject = str ''glow'',
       environment = str ''studio setting with clean background'',
       lighting = str ''glow'', materials = str ''glass, metal, plastic'',
       mood = str ''elegant and fresh'', composition = str ''centered hero close-up'',
       details = str ''crisp label, accurate color, subtle reflections'',
       duration = str ''4'' \<rparr>"
proof -
  have w: "without_proto proto_lexicon = [([48731], str ''glow'')]"
    by (simp add: without_proto_def proto_lexicon_def proto_key_def str_def)
  show ?thesis
    unfolding w light_parse by (simp add: translate_slots_def translate_defs)
qed

text \<open>
  Claim C1, as stated, fails: \<^verbatim>\<open>loadGuidelines\<close> publishes an empty global lexicon and
  never reads the lexicon of the document. After loading a document whose global lexicon
  translates a Korean word and whose model has no lexicon, the model's builder leaves the
  word as it is, while the merge the claim describes would translate it.
\<close>

theorem document_lexicon_not_applied:
  "fst (loadGuidelines online_env initial_world) = Inr (lexicon_doc\<lparr>source := Some (str ''local'')\<rparr>)
   \<and> doc_lexicon lexicon_doc = Some light_lexicon
   \<and> get_prop light_lexicon [48731] = Some (str ''light'')
   \<and> lexicon subject_model = None
   \<and> builders loaded_world (str ''sd'') = Some subject_model
   \<and> get_prop (mergedLexicon (GlobalGuidelines loaded_world) subject_model) [48731] = None
   \<and> buildPrompt (GlobalGuidelines loaded_world) subject_model [48731] [] empty_options
       = \<lparr> full = [48731], params = [] \<rparr>
   \<and> translate [48731] (object_assign (object_assign [] light_lexicon) []) = str ''light''"
proof -
  have g: "gg_lexicon (GlobalGuidelines loaded_world) = []"
    by (simp add: loaded_world_def online_load)
  have b: "builders loaded_world (str ''sd'') = Some subject_model"
    by (simp add: loaded_world_def online_load)
  have m: "mergedLexicon (GlobalGuidelines loaded_world) subject_model = []"
    by (simp add: mergedLexicon_def g subject_model_def)
  show ?thesis
    by (simp add: online_load b m subject_eval [OF g] translate_object_assign_empty
        without_proto_light light_translate)
      (simp add: lexicon_doc_def light_lexicon_def get_prop_def subject_model_def)
qed

text \<open>
  Claim C1, amended. The lexicon a builder translates the slots and the negative option
  with is the merge of the global lexicon published in \<^verbatim>\<open>window.GlobalGuidelines\<close> at the
  time of the call, as base, with the model's lexicon, which wins on a key both have;
  a key \<^verbatim>\<open>__proto__\<close> is never part of the merge. \<^verbatim>\<open>loadGuidelines\<close> publishes an empty
  global lexicon, so after a load that returned a document every builder translates
  with its model's lexicon alone (without a key \<^verbatim>\<open>__proto__\<close>).
\<close>

theorem merged_lexicon_lookup:
  "get_prop (mergedLexicon g m) k
     = (if k = proto_key then None
        else (case get_prop (case lexicon m of None \<Rightarrow> [] | Some l \<Rightarrow> l) k of
                None \<Rightarrow> get_prop (gg_lexicon g) k
              | Some v \<Rightarrow> Some v))
   \<and> full (buildPrompt g m input engine uiOptions)
       = fill (substitutions (translate_slots (mergedLexicon g m) (parse input)) engine
                 (aspectToken (params_of m) uiOptions) (stylizeToken (params_of m) uiOptions)
                 (seedToken (params_of m) uiOptions)
                 (negativeToken (params_of m) (mergedLexicon g m) uiOptions))
           (case template m of None \<Rightarrow> [] | Some t \<Rightarrow> t)
   \<and> (fst (loadGuidelines e w) = Inr d \<and> g' = GlobalGuidelines (snd (loadGuidelines e w))
        \<and> own = without_proto (case lexicon m of None \<Rightarrow> [] | Some l \<Rightarrow> l) \<longrightarrow>
        gg_lexicon g' = []
        \<and> get_prop (mergedLexicon g' m) k = get_prop own k
        \<and> translate t (mergedLexicon g' m) = translate t own
        \<and> translate_slots (mergedLexicon g' m) (parse input) = translate_slots own (parse input)
        \<and> negativeToken (params_of m) (mergedLexicon g' m) uiOptions
            = negativeToken (params_of m) own uiOptions
        \<and> full (buildPrompt g' m input engine uiOptions)
            = fill (substitutions (translate_slots own (parse input)) engine
                      (aspectToken (params_of m) uiOptions) (stylizeToken (params_of m) uiOptions)
                      (seedToken (params_of m) uiOptions)
                      (negativeToken (params_of m) own uiOptions))
                (case template m of None \<Rightarrow> [] | Some t \<Rightarrow> t))"
proof -
  let ?lm = "case lexicon m of None \<Rightarrow> [] | Some l \<Rightarrow> l"
  have p: "get_prop (object_assign [] x) proto_key = None" for x
    by (rule get_prop_assign_proto)
  have a: "get_prop (mergedLexicon g m) k
     = (if k = proto_key then None
        else (case get_prop ?lm k of None \<Rightarrow> get_prop (gg_lexicon g) k | Some v \<Rightarrow> Some v))"
    unfolding mergedLexicon_def
    by (simp add: get_prop_object_assign [OF p] get_prop_object_assign split: option.splits)
  have f: "full (buildPrompt g'' m input engine uiOptions)
       = fill (substitutions (translate_slots (mergedLexicon g'' m) (parse input)) engine
                 (aspectToken (params_of m) uiOptions) (stylizeToken (params_of m) uiOptions)
                 (seedToken (params_of m) uiOptions)
                 (negativeToken (params_of m) (mergedLexicon g'' m) uiOptions))
           (case template m of None \<Rightarrow> [] | Some t \<Rightarrow> t)" for g''
    by (simp add: buildPrompt_def Let_def)
  have after: "gg_lexicon g' = []
        \<and> get_prop (mergedLexicon g' m) k = get_prop own k
        \<and> translate t (mergedLexicon g' m) = translate t own
        \<and> translate_slots (mergedLexicon g' m) (parse input) = translate_slots own (parse input)
        \<and> negativeToken (params_of m) (mergedLexicon g' m) uiOptions
            = negativeToken (params_of m) own uiOptions
        \<and> full (buildPrompt g' m input engine uiOptions)
            = fill (substitutions (translate_slots own (parse input)) engine
                      (aspectToken (params_of m) uiOptions) (stylizeToken (params_of m) uiOptions)
                      (seedToken (params_of m) uiOptions)
                      (negativeToken (params_of m) own uiOptions))
                (case template m of None \<Rightarrow> [] | Some t \<Rightarrow> t)"
    if l: "fst (loadGuidelines e w) = Inr d"
      and g': "g' = GlobalGuidelines (snd (loadGuidelines e w))"
      and own: "own = without_proto ?lm"
  proof -
    have e: "gg_lexicon g' = []"
      unfolding g' by (rule published_lexicon [OF l])
    have b: "mergedLexicon g' m = object_assign [] ?lm"
      by (simp add: mergedLexicon_def e)
    have tr: "translate t' (mergedLexicon g' m) = translate t' own" for t'
      unfolding b own by (rule translate_object_assign_empty)
    have gp: "get_prop (mergedLexicon g' m) k = get_prop own k"
      unfolding b own
      by (simp add: get_prop_object_assign get_prop_without_proto split: option.splits)
    have ts: "translate_slots (mergedLexicon g' m) (parse input) = translate_slots own (parse input)"
      by (rule translate_slots_cong) (rule tr)
    have nt: "negativeToken (params_of m) (mergedLexicon g' m) uiOptions
            = negativeToken (params_of m) own uiOptions"
      by (rule negativeToken_cong) (rule tr)
    show ?thesis
      using e gp tr [of t] ts nt by (simp add: f)
  qed
  show ?thesis
    using a f [of g] after by blast
qed

text \<open>
  After the load of the example document, a model whose lexicon holds a translation of a
  Korean word and a property \<^verbatim>\<open>__proto__\<close>: the word is translated in the build and the
  property is not in the merge. And with a global lexicon in place, the model's entry
  wins on a shared key while the other global entries are kept.
\<close>

theorem merged_lexicon_lookup_witness:
  "fst (loadGuidelines online_env initial_world) = Inr (lexicon_doc\<lparr>source := Some (str ''local'')\<rparr>)
   \<and> gg_lexicon (GlobalGuidelines loaded_world) = []
   \<and> lexicon proto_model = Some proto_lexicon
   \<and> get_prop proto_lexicon proto_key = Some (str ''x'')
   \<and> get_prop (mergedLexicon (GlobalGuidelines loaded_world) proto_model) proto_key = None
   \<and> translate [48731] (mergedLexicon (GlobalGuidelines loaded_world) proto_model) = str ''glow''
   \<and> full (buildPrompt (GlobalGuidelines loaded_world) proto_model [48731] [] empty_options)
       = str ''glow''
   \<and> get_prop (mergedLexicon (GlobalGuidelines initial_world\<lparr>gg_lexicon := light_lexicon\<rparr>) glow_model)
        [48731] = Some (str ''glow'')
   \<and> get_prop (mergedLexicon (GlobalGuidelines initial_world\<lparr>gg_lexicon := light_lexicon\<rparr>) four_model)
        [48731] = Some (str ''light'')
   \<and> get_prop (mergedLexicon (GlobalGuidelines initial_world\<lparr>gg_lexicon := light_lexicon\<rparr>) four_model)
        (str ''4'') = Some (str ''four'')"
proof -
  let ?g = "GlobalGuidelines initial_world\<lparr>gg_lexicon := light_lexicon\<rparr>"
  let ?d = "lexicon_doc\<lparr>source := Some (str ''local'')\<rparr>"
  have l: "fst (loadGuidelines online_env initial_world) = Inr ?d"
    by (simp add: online_load)
  have w: "GlobalGuidelines loaded_world = GlobalGuidelines (snd (loadGuidelines online_env initial_world))"
    by (simp add: loaded_world_def)
  have x: "lexicon glow_model = Some [([48731], str ''glow'')]"
    "lexicon four_model = Some [(str ''4'', str ''four'')]"
    "lexicon proto_model = Some proto_lexicon"
    by (simp_all add: glow_model_def four_model_def proto_model_def)
  note a = merged_lexicon_lookup [of "GlobalGuidelines loaded_world" proto_model proto_key
      "[48731]" "[]" empty_options online_env initial_world ?d "GlobalGuidelines loaded_world"
      "without_proto proto_lexicon" "[48731]"]
  note b = merged_lexicon_lookup [of ?g glow_model "[48731]"]
  note c = merged_lexicon_lookup [of ?g four_model "[48731]"]
  note d = merged_lexicon_lookup [of ?g four_model "str ''4''"]
  have t: "translate [48731] (without_proto proto_lexicon) = str ''glow''"
    by (simp add: without_proto_def proto_lexicon_def proto_key_def translate_defs)
  have pm: "params_of proto_model = all_keys"
    "template proto_model = Some (str ''{subject}'')"
    by (simp_all add: params_of_def proto_model_def subject_model_def)
  have tk: "aspectToken all_keys empty_options = []" "seedToken all_keys empty_options = []"
    "negativeToken all_keys lx empty_options = []"
    "stylizeToken all_keys empty_options = str ''--s 50''" for lx
    by (simp_all add: aspectToken_def seedToken_def negativeToken_def stylizeToken_def
        all_keys_def empty_options_def key_text_def show_int_def Abs_safe_int_inverse str_def)
  have f: "fill (substitutions (translate_slots (without_proto proto_lexicon) (parse [48731])) []
             [] (str ''--s 50'') [] []) (str ''{subject}'') = str ''glow''"
    unfolding proto_slots
    by (simp add: substitutions_def fill_def js_replace_def str_def js_trim_def isWhiteSpace_def)
  have gp: "get_prop proto_lexicon proto_key = Some (str ''x'')"
    by (simp add: proto_lexicon_def get_prop_def)
  have k: "[48731] \<noteq> proto_key" "str ''4'' \<noteq> proto_key"
    by (simp_all add: proto_key_def str_def)
  have a': "gg_lexicon (GlobalGuidelines loaded_world) = []
     \<and> translate [48731] (mergedLexicon (GlobalGuidelines loaded_world) proto_model) = str ''glow''
     \<and> full (buildPrompt (GlobalGuidelines loaded_world) proto_model [48731] [] empty_options)
         = str ''glow''
     \<and> get_prop (mergedLexicon (GlobalGuidelines loaded_world) proto_model) proto_key = None"
    using a l w by (simp add: x t pm tk f)
  have b': "get_prop (mergedLexicon ?g glow_model) [48731] = Some (str ''glow'')"
    using b k by (simp add: x get_prop_def)
  have c': "get_prop (mergedLexicon ?g four_model) [48731] = Some (str ''light'')"
    using c k by (simp add: x) (simp add: get_prop_def light_lexicon_def str_def)
  have d': "get_prop (mergedLexicon ?g four_model) (str ''4'') = Some (str ''four'')"
    using d k by (simp add: x get_prop_def)
  show ?thesis
    using l a' b' c' d' x(3) gp by simp
qed


section \<open>Rendering the template\<close>

lemma get_substitution_plain: "36 \<notin> set rep \<Longrightarrow> get_substitution m b a rep = rep"
  by (induction m b a rep rule: get_substitution.induct) auto

lemma js_replace_plain:
  "36 \<notin> set v \<Longrightarrow>
   js_replace pat v s = (case find_first pat s of None \<Rightarrow> s | Some (b, a) \<Rightarrow> b @ v @ a)"
  by (simp add: js_replace_def get_substitution_plain split: option.splits)

lemma find_first_skip:
  "123 \<notin> set s \<Longrightarrow>
   find_first (brace n) (s @ t) = map_option (\<lambda>(b, a). (s @ b, a)) (find_first (brace n) t)"
proof (induction s)
  case Nil
  show ?case by (cases "find_first (brace n) t") auto
next
  case (Cons c s)
  then have "\<not> prefix (brace n) (c # s @ t)"
    by (auto simp: brace_def)
  with Cons show ?case
    by (cases "find_first (brace n) t") auto
qed

lemma prefix_closing:
  "125 \<notin> set n \<Longrightarrow> 125 \<notin> set m \<Longrightarrow> prefix (n @ [125]) (m @ 125 # t) \<Longrightarrow> n = m"
proof (induction n arbitrary: m)
  case Nil
  then show ?case by (cases m) auto
next
  case (Cons x n)
  then show ?case by (cases m) auto
qed

lemma prefix_brace:
  "125 \<notin> set n \<Longrightarrow> 125 \<notin> set m \<Longrightarrow> prefix (brace n) (brace m @ t) \<longleftrightarrow> n = m"
  using prefix_closing [of n m t] by (auto simp: brace_def)

lemma find_first_token:
  assumes "123 \<notin> set m" "125 \<notin> set m" "125 \<notin> set n"
  shows "find_first (brace n) (brace m @ t) =
     (if n = m then Some ([], t)
      else map_option (\<lambda>(b, a). (brace m @ b, a)) (find_first (brace n) t))"
proof (cases "n = m")
  case True
  have "find_first (brace m) (123 # m @ 125 # t) = Some ([], t)"
    by (simp add: brace_def)
  with True show ?thesis by (simp add: brace_def)
next
  case False
  with assms have np: "\<not> prefix (brace n) (123 # m @ 125 # t)"
    using prefix_brace [of n m t] by (simp add: brace_def)
  have sk: "find_first (brace n) ((m @ [125]) @ t)
      = map_option (\<lambda>(b, a). ((m @ [125]) @ b, a)) (find_first (brace n) t)"
    using assms(1) by (intro find_first_skip) simp
  have "find_first (brace n) (123 # m @ 125 # t)
      = map_option (\<lambda>(b, a). (123 # m @ 125 # b, a)) (find_first (brace n) t)"
    using np sk by (cases "find_first (brace n) t") auto
  with False show ?thesis by (simp add: brace_def)
qed

lemma js_replace_flat:
  assumes "list_all plain_piece ps" "125 \<notin> set n" "36 \<notin> set v"
  shows "js_replace (brace n) v (flat ps) = flat (subst_first n v ps)"
  using assms(1)
proof (induction ps rule: flat.induct)
  case 1
  show ?case by (simp add: js_replace_plain [OF assms(3)] brace_def)
next
  case (2 s ps)
  then have ih: "js_replace (brace n) v (flat ps) = flat (subst_first n v ps)"
    and s: "123 \<notin> set s" by simp_all
  show ?case
    using ih by (cases "find_first (brace n) (flat ps)")
      (auto simp: js_replace_plain [OF assms(3)] find_first_skip [OF s])
next
  case (3 m ps)
  then have ih: "js_replace (brace n) v (flat ps) = flat (subst_first n v ps)"
    and m: "123 \<notin> set m" "125 \<notin> set m" by simp_all
  show ?case
    using ih by (cases "find_first (brace n) (flat ps)")
      (auto simp: js_replace_plain [OF assms(3)] find_first_token [OF m assms(2)])
qed

lemma plain_subst_first:
  "list_all plain_piece ps \<Longrightarrow> 123 \<notin> set v \<Longrightarrow> list_all plain_piece (subst_first n v ps)"
  by (induction ps rule: flat.induct) auto

lemma fold_replace_flat:
  assumes "\<forall>(n, v) \<in> set nv. 125 \<notin> set n \<and> 36 \<notin> set v \<and> 123 \<notin> set v"
    and "list_all plain_piece ps"
  shows "fold (\<lambda>(placeholder, v) s. js_replace placeholder v s)
           (map (\<lambda>(n, v). (brace n, v)) nv) (flat ps)
         = flat (fold (\<lambda>(n, v). subst_first n v) nv ps)"
  using assms
proof (induction nv arbitrary: ps)
  case Nil
  show ?case by simp
next
  case (Cons a nv)
  obtain n v where a: "a = (n, v)" by (cases a)
  with Cons.prems have h: "125 \<notin> set n" "36 \<notin> set v" "123 \<notin> set v"
    by auto
  have "fold (\<lambda>(placeholder, v) s. js_replace placeholder v s)
           (map (\<lambda>(n, v). (brace n, v)) nv) (flat (subst_first n v ps))
         = flat (fold (\<lambda>(n, v). subst_first n v) nv (subst_first n v ps))"
    using Cons.prems by (intro Cons.IH plain_subst_first h) auto
  then show ?case
    by (simp add: a js_replace_flat [OF Cons.prems(2) h(1,2)])
qed

lemma subst_first_once:
  "count_list (token_names ps) n \<le> 1 \<Longrightarrow>
   subst_first n v ps = map (\<lambda>p. if p = Token n then Text v else p) ps"
proof (induction ps rule: flat.induct)
  case 1
  show ?case by simp
next
  case (2 s ps)
  then show ?case by simp
next
  case (3 m ps)
  show ?case
  proof (cases "m = n")
    case True
    with 3 have "count_list (token_names ps) n = 0" by simp
    then have "n \<notin> set (token_names ps)"
      by (simp add: count_list_0_iff)
    then have "Token n \<notin> set ps"
      by (induction ps rule: flat.induct) auto
    then have "map (\<lambda>p. if p = Token n then Text v else p) ps = ps"
      by (intro map_idI) auto
    with True show ?thesis by simp
  next
    case False
    with 3 show ?thesis by simp
  qed
qed

lemma token_names_map:
  "count_list (token_names (map (\<lambda>p. if p = Token n then Text v else p) ps)) m
     \<le> count_list (token_names ps) m"
  by (induction ps rule: flat.induct) auto

lemma fold_subst_resolve:
  "\<forall>n \<in> fst ` set nv. count_list (token_names ps) n \<le> 1 \<Longrightarrow>
   fold (\<lambda>(n, v). subst_first n v) nv ps = map (resolve (map_of nv)) ps"
proof (induction nv arbitrary: ps)
  case Nil
  have "map (resolve Map.empty) ps = ps"
    by (induction ps rule: flat.induct) auto
  then show ?case by simp
next
  case (Cons a nv)
  obtain n v where a: "a = (n, v)" by (cases a)
  let ?ps = "map (\<lambda>p. if p = Token n then Text v else p) ps"
  have s: "subst_first n v ps = ?ps"
    using Cons.prems by (intro subst_first_once) (simp add: a)
  have "\<forall>m \<in> fst ` set nv. count_list (token_names ?ps) m \<le> 1"
    using Cons.prems token_names_map [of n v ps] by (auto intro: order_trans)
  then have ih: "fold (\<lambda>(n, v). subst_first n v) nv ?ps = map (resolve (map_of nv)) ?ps"
    by (rule Cons.IH)
  have e: "map (resolve (map_of nv)) ?ps = map (resolve ((map_of nv)(n \<mapsto> v))) ps"
    by (induction ps rule: flat.induct) auto
  have "fold (\<lambda>(n, v). subst_first n v) (a # nv) ps
          = fold (\<lambda>(n, v). subst_first n v) nv (subst_first n v ps)"
    by (simp add: a)
  also have "\<dots> = map (resolve ((map_of nv)(n \<mapsto> v))) ps"
    by (simp only: s ih e)
  finally show ?case
    by (simp only: a map_of.simps fst_conv snd_conv)
qed

lemma flat_resolve: "flat (map (resolve vals) ps) = spec_render vals ps"
  by (induction ps rule: flat.induct) (auto split: option.splits)

lemma substitutions_braces:
  "substitutions ts engine a s sd n
     = map (\<lambda>(n, v). (brace n, v)) (placeholder_values ts engine a s sd n)"
  by (simp add: substitutions_def placeholder_values_def brace_def str_def)


lemma placeholder_names_plain:
  "\<forall>(n, v) \<in> set (placeholder_values ts engine a s sd ng). 125 \<notin> set n"
  by (simp add: placeholder_values_def str_def)

lemma placeholder_names:
  "map fst (placeholder_values ts engine a s sd ng) =
     [str ''subject'', str ''environment'', str ''lighting'', str ''materials'', str ''mood'',
      str ''composition'', str ''details'', str ''duration'', str ''engine'', str ''aspect'',
      str ''stylize'', str ''seed'', str ''negative'']"
  by (simp add: placeholder_values_def)

lemma engine_parse:
  "parse (str ''{engine}'') =
     \<lparr> subject = str ''{engine}'',
       environment = str ''studio setting with clean background'',
       lighting = str ''soft diffuse lighting'', materials = str ''glass, metal, plastic'',
       mood = str ''elegant and fresh'', composition = str ''centered hero close-up'',
       details = str ''crisp label, accurate color, subtle reflections'', duration = 4 \<rparr>"
  by (simp add: slot_defs)

lemma dollar_parse:
  "parse (str ''$$'') =
     \<lparr> subject = str ''$$'',
       environment = str ''studio setting with clean background'',
       lighting = str ''soft diffuse lighting'', materials = str ''glass, metal, plastic'',
       mood = str ''elegant and fresh'', composition = str ''centered hero close-up'',
       details = str ''crisp label, accurate color, subtle reflections'', duration = 4 \<rparr>"
  by (simp add: slot_defs)

text \<open>
  Claim C9, as stated, fails: the values are not inserted verbatim, and not every
  occurrence of a placeholder is replaced. The placeholders are replaced one after the
  other, so a later replacement matches inside a value inserted by an earlier one: the
  subject \<^verbatim>\<open>{engine}\<close> is rendered as the engine's name. The replace value is read as a
  replacement pattern: the subject \<^verbatim>\<open>$$\<close> is rendered as \<^verbatim>\<open>$\<close>. And each replacement
  stops at the first occurrence: a second \<^verbatim>\<open>{subject}\<close> in the template stays.
\<close>

theorem render_rematches_values:
  "subject (translate_slots (mergedLexicon (GlobalGuidelines initial_world) subject_model)
      (parse (str ''{engine}''))) = str ''{engine}''
   \<and> template subject_model = Some (str ''{subject}'')
   \<and> full (buildPrompt (GlobalGuidelines initial_world) subject_model (str ''{engine}'')
        (str ''image'') empty_options) = str ''image''
   \<and> subject (translate_slots (mergedLexicon (GlobalGuidelines initial_world) subject_model)
      (parse (str ''$$''))) = str ''$$''
   \<and> full (buildPrompt (GlobalGuidelines initial_world) subject_model (str ''$$'')
        (str ''image'') empty_options) = str ''$''
   \<and> subject (translate_slots (mergedLexicon (GlobalGuidelines initial_world) twice_model)
      (parse shoe_text)) = str ''a red shoe''
   \<and> template twice_model = Some (str ''{subject} and {subject}'')
   \<and> full (buildPrompt (GlobalGuidelines initial_world) twice_model shoe_text
        (str ''image'') empty_options) = str ''a red shoe and {subject}''"
proof -
  have lx: "mergedLexicon (GlobalGuidelines initial_world) subject_model = []"
    "mergedLexicon (GlobalGuidelines initial_world) twice_model = []"
    by (simp_all add: mergedLexicon_def initial_world_def subject_model_def twice_model_def)
  have t: "template subject_model = Some (str ''{subject}'')"
    "template twice_model = Some (str ''{subject} and {subject}'')"
    by (simp_all add: subject_model_def twice_model_def)
  have pm: "params_of subject_model = all_keys" "params_of twice_model = all_keys"
    by (simp_all add: params_of_def subject_model_def twice_model_def)
  have tk: "aspectToken all_keys empty_options = []" "seedToken all_keys empty_options = []"
    "negativeToken all_keys [] empty_options = []"
    "stylizeToken all_keys empty_options = str ''--s 50''"
    by (simp_all add: aspectToken_def seedToken_def negativeToken_def stylizeToken_def
        all_keys_def empty_options_def key_text_def show_int_def Abs_safe_int_inverse str_def)
  have f1: "fill (substitutions (translate_slots [] (parse (str ''{engine}''))) (str ''image'')
              [] (str ''--s 50'') [] []) (str ''{subject}'') = str ''image''"
    unfolding engine_parse
    by (simp add: translate_slots_def substitutions_def fill_def js_replace_def str_def
        js_trim_def isWhiteSpace_def)
  have f2: "fill (substitutions (translate_slots [] (parse (str ''$$''))) (str ''image'')
              [] (str ''--s 50'') [] []) (str ''{subject}'') = str ''$''"
    unfolding dollar_parse
    by (simp add: translate_slots_def substitutions_def fill_def js_replace_def str_def
        js_trim_def isWhiteSpace_def)
  have f3: "fill (substitutions (translate_slots [] (parse shoe_text)) (str ''image'')
              [] (str ''--s 50'') [] []) (str ''{subject} and {subject}'')
            = str ''a red shoe and {subject}''"
    unfolding shoe_text_def example_parse
    by (simp add: translate_slots_def substitutions_def fill_def js_replace_def str_def
        js_trim_def isWhiteSpace_def)
  have s1: "subject (translate_slots [] (parse (str ''{engine}''))) = str ''{engine}''"
    by (simp add: engine_parse translate_slots_def)
  have s2: "subject (translate_slots [] (parse (str ''$$''))) = str ''$$''"
    by (simp add: dollar_parse translate_slots_def)
  have s3: "subject (translate_slots [] (parse shoe_text)) = str ''a red shoe''"
    by (simp add: shoe_text_def example_parse translate_slots_def)
  show ?thesis
    unfolding buildPrompt_def Let_def lx pm tk t
    by (simp add: f1 f2 f3 s1 s2 s3)
qed

lemma render_pieces:
  assumes "(case template m of None \<Rightarrow> [] | Some t \<Rightarrow> t) = flat ps"
    and "list_all plain_piece ps"
    and "vals = placeholder_values (translate_slots (mergedLexicon g m) (parse input)) engine
                  (aspectToken (params_of m) uiOptions) (stylizeToken (params_of m) uiOptions)
                  (seedToken (params_of m) uiOptions)
                  (negativeToken (params_of m) (mergedLexicon g m) uiOptions)"
    and "\<forall>n \<in> fst ` set vals. count_list (token_names ps) n \<le> 1"
    and "\<forall>v \<in> snd ` set vals. 36 \<notin> set v \<and> 123 \<notin> set v"
  shows "full (buildPrompt g m input engine uiOptions) = js_trim (spec_render (map_of vals) ps)"
proof -
  have h: "\<forall>(n, v) \<in> set vals. 125 \<notin> set n \<and> 36 \<notin> set v \<and> 123 \<notin> set v"
    using assms(5) placeholder_names_plain unfolding assms(3) by fastforce
  have "full (buildPrompt g m input engine uiOptions)
          = js_trim (fold (\<lambda>(placeholder, v) s. js_replace placeholder v s)
              (map (\<lambda>(n, v). (brace n, v)) vals) (flat ps))"
    by (simp add: buildPrompt_def Let_def fill_def assms(1,3) substitutions_braces)
  also have "\<dots> = js_trim (flat (fold (\<lambda>(n, v). subst_first n v) vals ps))"
    by (simp only: fold_replace_flat [OF h assms(2)])
  also have "\<dots> = js_trim (flat (map (resolve (map_of vals)) ps))"
    by (simp only: fold_subst_resolve [OF assms(4)])
  also have "\<dots> = js_trim (spec_render (map_of vals) ps)"
    by (simp only: flat_resolve)
  finally show ?thesis .
qed

text \<open>
  Claim C9, amended. For a template that is a sequence of plain text and tokens, in which
  each of the thirteen named placeholders occurs at most once, and when no resolved value
  contains a dollar sign or an opening brace, rendering is literal placeholder
  substitution: each of the thirteen placeholders is replaced by its resolved value
  verbatim, every token with another name is left as it is, and the result is trimmed.
\<close>

theorem render_literal_substitution:
  assumes "(case template m of None \<Rightarrow> [] | Some t \<Rightarrow> t) = flat ps"
    and "list_all plain_piece ps"
    and "vals = placeholder_values (translate_slots (mergedLexicon g m) (parse input)) engine
                  (aspectToken (params_of m) uiOptions) (stylizeToken (params_of m) uiOptions)
                  (seedToken (params_of m) uiOptions)
                  (negativeToken (params_of m) (mergedLexicon g m) uiOptions)"
    and "\<forall>n \<in> fst ` set vals. count_list (token_names ps) n \<le> 1"
    and "\<forall>v \<in> snd ` set vals. 36 \<notin> set v \<and> 123 \<notin> set v"
  shows "full (buildPrompt g m input engine uiOptions) = js_trim (spec_render (map_of vals) ps)"
  using assms by (rule render_pieces)


lemma camera_template: "flat camera_pieces = str ''{subject} | {camera} | {stylize}''"
  by (simp add: camera_pieces_def brace_def str_def)

lemma camera_values:
  "placeholder_values (translate_slots (mergedLexicon (GlobalGuidelines initial_world) camera_model)
       (parse shoe_text)) []
     (aspectToken (params_of camera_model) empty_options)
     (stylizeToken (params_of camera_model) empty_options)
     (seedToken (params_of camera_model) empty_options)
     (negativeToken (params_of camera_model)
        (mergedLexicon (GlobalGuidelines initial_world) camera_model) empty_options)
   = [(str ''subject'', str ''a red shoe''),
      (str ''environment'', str ''on a wooden table''),
      (str ''lighting'', str ''soft diffuse lighting''),
      (str ''materials'', str ''glass, metal, plastic''),
      (str ''mood'', str ''elegant and fresh''),
      (str ''composition'', str ''centered hero close-up''),
      (str ''details'', str ''crisp label, accurate color, subtle reflections''),
      (str ''duration'', str ''4''),
      (str ''engine'', []),
      (str ''aspect'', []),
      (str ''stylize'', str ''--s 50''),
      (str ''seed'', []),
      (str ''negative'', [])]"
proof -
  have lx: "mergedLexicon (GlobalGuidelines initial_world) camera_model = []"
    by (simp add: mergedLexicon_def initial_world_def camera_model_def subject_model_def)
  have pm: "params_of camera_model = all_keys"
    by (simp add: params_of_def camera_model_def subject_model_def)
  have tk: "aspectToken all_keys empty_options = []" "seedToken all_keys empty_options = []"
    "negativeToken all_keys [] empty_options = []"
    "stylizeToken all_keys empty_options = str ''--s 50''"
    by (simp_all add: aspectToken_def seedToken_def negativeToken_def stylizeToken_def
        all_keys_def empty_options_def key_text_def show_int_def Abs_safe_int_inverse str_def)
  have d: "show_nat 4 = str ''4''"
    by (simp add: str_def)
  show ?thesis
    unfolding lx pm tk shoe_text_def example_parse
    by (simp add: placeholder_values_def translate_slots_def d)
qed

text \<open>
  The template \<^verbatim>\<open>{subject} | {camera} | {stylize}\<close> on the text of the end-to-end example
  with empty options: the unknown placeholder \<^verbatim>\<open>{camera}\<close> stays.
\<close>

theorem render_literal_substitution_witness:
  "(case template camera_model of None \<Rightarrow> [] | Some t \<Rightarrow> t) = flat camera_pieces
   \<and> flat camera_pieces = str ''{subject} | {camera} | {stylize}''
   \<and> list_all plain_piece camera_pieces
   \<and> full (buildPrompt (GlobalGuidelines initial_world) camera_model shoe_text [] empty_options)
       = str ''a red shoe | {camera} | --s 50''"
proof -
  let ?vals = "[(str ''subject'', str ''a red shoe''),
      (str ''environment'', str ''on a wooden table''),
      (str ''lighting'', str ''soft diffuse lighting''),
      (str ''materials'', str ''glass, metal, plastic''),
      (str ''mood'', str ''elegant and fresh''),
      (str ''composition'', str ''centered hero close-up''),
      (str ''details'', str ''crisp label, accurate color, subtle reflections''),
      (str ''duration'', str ''4''),
      (str ''engine'', []),
      (str ''aspect'', []),
      (str ''stylize'', str ''--s 50''),
      (str ''seed'', []),
      (str ''negative'', [])]"
  have t: "(case template camera_model of None \<Rightarrow> [] | Some t \<Rightarrow> t) = flat camera_pieces"
    by (simp add: camera_model_def)
  have w: "list_all plain_piece camera_pieces"
    by (simp add: camera_pieces_def str_def)
  have c: "\<forall>n \<in> fst ` set ?vals. count_list (token_names camera_pieces) n \<le> 1"
    by (simp add: camera_pieces_def str_def)
  have v: "\<forall>v \<in> snd ` set ?vals. 36 \<notin> set v \<and> 123 \<notin> set v"
    by (simp add: str_def)
  have r: "js_trim (spec_render (map_of ?vals) camera_pieces) = str ''a red shoe | {camera} | --s 50''"
    by (simp add: camera_pieces_def str_def brace_def js_trim_def isWhiteSpace_def)
  show ?thesis
    using render_literal_substitution [OF t w camera_values [symmetric] c v] t w r
    by (simp add: camera_template)
qed

section \<open>Parameter tokens\<close>


















end
